theory Spec2Isabelle
  imports Complex_Main
begin

section \<open>Python values and errors\<close>

text \<open>
  Exceptions of the Python sources are values of \<open>py_error\<close>; a function that can raise
  returns \<open>py_error + 'a\<close> with \<open>Inl\<close> for the raised exception.  Every constructor but
  \<open>KeyboardInterrupt\<close> stands for a subclass of Python's \<open>Exception\<close>, which is what a
  handler \<open>except Exception\<close> catches.
\<close>

datatype py_error =
    IndexError
  | KeyError
  | ValueError
  | TypeError
  | OverflowError
  | AttributeError
  | RuntimeError
  | JSONDecodeError
  | FileOperationError
  | ContainerExecutionError
  | HTTPError "int option"
  | RequestException
  | LLMError
  | KeyboardInterrupt

definition is_exception :: "py_error \<Rightarrow> bool" where
  "is_exception e = (e \<noteq> KeyboardInterrupt)"

text \<open>
  Strings are lists of characters read as code points below 256.  \<open>str.splitlines\<close>
  breaks a text at LF, VT, FF, CR, FS, GS, RS and NEL, and takes CR LF as one break;
  \<open>str.isspace\<close> holds of TAB..CR, FS..US, the blank, NEL and the no-break space.
\<close>

definition LF :: char where
  "LF = CHR 0x0A"

definition CR :: char where
  "CR = CHR 0x0D"

definition is_linebreak :: "char \<Rightarrow> bool" where
  "is_linebreak c = (of_char c \<in> {10, 11, 12, 13, 28, 29, 30, 133 :: nat})"

definition isspace :: "char \<Rightarrow> bool" where
  "isspace c =
     (let n = (of_char c :: nat)
      in (9 \<le> n \<and> n \<le> 13) \<or> (28 \<le> n \<and> n \<le> 32) \<or> n = 133 \<or> n = 160)"

fun splitlines_from :: "string \<Rightarrow> string \<Rightarrow> string list" where
  "splitlines_from cur [] = (if cur = [] then [] else [rev cur])"
| "splitlines_from cur (c # cs) =
     (if c = CR then
        (case cs of
           [] \<Rightarrow> rev cur # splitlines_from [] cs
         | d # ds \<Rightarrow>
             if d = LF then rev cur # splitlines_from [] ds
             else rev cur # splitlines_from [] cs)
      else if is_linebreak c then rev cur # splitlines_from [] cs
      else splitlines_from (c # cur) cs)"

definition splitlines :: "string \<Rightarrow> string list" where
  "splitlines s = splitlines_from [] s"

fun str_join :: "string \<Rightarrow> string list \<Rightarrow> string" where
  "str_join sep [] = []"
| "str_join sep [x] = x"
| "str_join sep (x # y # ys) = x @ sep @ str_join sep (y # ys)"

definition lstrip :: "string \<Rightarrow> string" where
  "lstrip s = dropWhile isspace s"

definition strip :: "string \<Rightarrow> string" where
  "strip s = rev (dropWhile isspace (rev (dropWhile isspace s)))"

text \<open>Subscripts of a Python list: an index from \<open>-len\<close> to \<open>-1\<close> counts from the end, and
  every index outside \<open>-len .. len - 1\<close> raises \<open>IndexError\<close>.\<close>

definition norm_index :: "nat \<Rightarrow> int \<Rightarrow> nat option" where
  "norm_index len i =
     (if 0 \<le> i \<and> i < int len then Some (nat i)
      else if - int len \<le> i \<and> i < 0 then Some (nat (i + int len))
      else None)"

definition getitem :: "'a list \<Rightarrow> int \<Rightarrow> py_error + 'a" where
  "getitem xs i =
     (case norm_index (length xs) i of None \<Rightarrow> Inl IndexError | Some j \<Rightarrow> Inr (xs ! j))"

definition setitem :: "'a list \<Rightarrow> int \<Rightarrow> 'a \<Rightarrow> py_error + 'a list" where
  "setitem xs i v =
     (case norm_index (length xs) i of None \<Rightarrow> Inl IndexError | Some j \<Rightarrow> Inr (xs[j := v]))"

definition py_range :: "int \<Rightarrow> int \<Rightarrow> int list" where
  "py_range a b = [a..b - 1]"


section \<open>analysis/dual\_layer\_conetxt.py: the mixed stitcher\<close>

text \<open>A collapsible range, the dictionary \<open>{"start": s, "end": e}\<close> of the sources.\<close>

record line_range =
  r_start :: int
  r_end :: int

definition indent_of :: "string \<Rightarrow> string" where
  "indent_of line = take (length line - length (lstrip line)) line"

definition hidden_placeholder :: string where
  "hidden_placeholder = ''# ... (irrelevant code hidden)''"

text \<open>The inner loop \<open>for i in range(start + 1, end)\<close> of \<open>_stitch_code\<close>.\<close>

fun mark_lines :: "nat \<Rightarrow> int list \<Rightarrow> bool list \<Rightarrow> py_error + bool list" where
  "mark_lines n [] is_suppressible = Inr is_suppressible"
| "mark_lines n (i # rest) is_suppressible =
     (if 0 \<le> i - 1 \<and> i - 1 < int n then
        (case setitem is_suppressible (i - 1) True of
           Inl e \<Rightarrow> Inl e
         | Inr flags \<Rightarrow> mark_lines n rest flags)
      else mark_lines n rest is_suppressible)"

text \<open>The loop \<open>for rng in ranges_to_hide\<close> of \<open>_stitch_code\<close>.\<close>

fun mark_ranges :: "nat \<Rightarrow> line_range list \<Rightarrow> bool list \<Rightarrow> py_error + bool list" where
  "mark_ranges n [] is_suppressible = Inr is_suppressible"
| "mark_ranges n (rng # rest) is_suppressible =
     (if r_end rng > r_start rng then
        (case mark_lines n (py_range (r_start rng + 1) (r_end rng)) is_suppressible of
           Inl e \<Rightarrow> Inl e
         | Inr flags \<Rightarrow> mark_ranges n rest flags)
      else mark_ranges n rest is_suppressible)"

definition should_keep :: "bool \<Rightarrow> int \<Rightarrow> int set \<Rightarrow> bool" where
  "should_keep suppressible line_num slice_lines =
     (if suppressible then (if line_num \<in> slice_lines then True else False) else True)"

text \<open>The loop \<open>for i, line_content in enumerate(lines)\<close> of \<open>_stitch_code\<close>, with its
  two variables \<open>stitched_lines\<close> and \<open>last_was_gap\<close>.\<close>

fun stitch_loop ::
  "int set \<Rightarrow> bool list \<Rightarrow> (nat \<times> string) list \<Rightarrow> string list \<Rightarrow> bool \<Rightarrow> py_error + string list"
where
  "stitch_loop slice_lines is_suppressible [] stitched_lines last_was_gap = Inr stitched_lines"
| "stitch_loop slice_lines is_suppressible ((i, line_content) # rest) stitched_lines last_was_gap =
     (case getitem is_suppressible (int i) of
        Inl e \<Rightarrow> Inl e
      | Inr s \<Rightarrow>
          if should_keep s (int i + 1) slice_lines then
            stitch_loop slice_lines is_suppressible rest (stitched_lines @ [line_content]) False
          else if \<not> last_was_gap then
            stitch_loop slice_lines is_suppressible rest
              (stitched_lines @ [indent_of line_content @ hidden_placeholder]) True
          else stitch_loop slice_lines is_suppressible rest stitched_lines last_was_gap)"

definition stitch_lines ::
  "string list \<Rightarrow> int set \<Rightarrow> line_range list \<Rightarrow> py_error + string list" where
  "stitch_lines lines slice_lines ranges_to_hide =
     (case mark_ranges (length lines) ranges_to_hide (replicate (length lines) False) of
        Inl e \<Rightarrow> Inl e
      | Inr is_suppressible \<Rightarrow>
          stitch_loop slice_lines is_suppressible (enumerate 0 lines) [] False)"

definition stitch_code :: "string \<Rightarrow> int set \<Rightarrow> line_range list \<Rightarrow> py_error + string" where
  "stitch_code source_code slice_lines ranges_to_hide =
     (case stitch_lines (splitlines source_code) slice_lines ranges_to_hide of
        Inl e \<Rightarrow> Inl e
      | Inr stitched_lines \<Rightarrow> Inr (str_join [LF] stitched_lines))"


section \<open>analysis/PCSC.py: the skeleton renderer\<close>

definition skeleton_placeholder :: string where
  "skeleton_placeholder = ''# ... existing code ...''"

text \<open>The first loop of \<open>_create_skeleton\<close>: the set \<open>lines_to_suppress\<close> of 0-based
  indices.  (The dictionary \<open>placeholder_insertion_points\<close> it also fills is never read.)\<close>

fun suppress_ranges :: "line_range list \<Rightarrow> int set \<Rightarrow> int set" where
  "suppress_ranges [] lines_to_suppress = lines_to_suppress"
| "suppress_ranges (rng # rest) lines_to_suppress =
     (if r_end rng > r_start rng then
        suppress_ranges rest
          (fold (\<lambda>i s. insert (i - 1) s) (py_range (r_start rng + 1) (r_end rng)) lines_to_suppress)
      else suppress_ranges rest lines_to_suppress)"

text \<open>The inner loop \<open>for rng in ranges_to_hide: ... break\<close> run after a visible line.\<close>

fun placeholder_after :: "string list \<Rightarrow> nat \<Rightarrow> line_range list \<Rightarrow> string list" where
  "placeholder_after lines i [] = []"
| "placeholder_after lines i (rng # rest) =
     (if int i = r_start rng - 1 \<and> r_end rng > r_start rng then
        [(if i + 1 < length lines then indent_of (lines ! (i + 1)) else []) @ skeleton_placeholder]
      else placeholder_after lines i rest)"

fun skeleton_loop ::
  "string list \<Rightarrow> line_range list \<Rightarrow> int set \<Rightarrow> (nat \<times> string) list \<Rightarrow> string list \<Rightarrow> string list"
where
  "skeleton_loop lines ranges_to_hide lines_to_suppress [] result_lines = result_lines"
| "skeleton_loop lines ranges_to_hide lines_to_suppress ((i, line) # rest) result_lines =
     (if int i \<in> lines_to_suppress then
        skeleton_loop lines ranges_to_hide lines_to_suppress rest result_lines
      else
        skeleton_loop lines ranges_to_hide lines_to_suppress rest
          (result_lines @ [line] @ placeholder_after lines i ranges_to_hide))"

definition skeleton_lines :: "string list \<Rightarrow> line_range list \<Rightarrow> string list" where
  "skeleton_lines lines ranges_to_hide =
     skeleton_loop lines ranges_to_hide (suppress_ranges ranges_to_hide {}) (enumerate 0 lines) []"

definition create_skeleton :: "string \<Rightarrow> line_range list \<Rightarrow> string" where
  "create_skeleton source_code ranges_to_hide =
     (if ranges_to_hide = [] then source_code
      else str_join [LF] (skeleton_lines (splitlines source_code) ranges_to_hide))"


section \<open>LLM/client.py: the retry wrapper\<close>

text \<open>
  What one run of the wrapper did: the value it returned or the exception it raised, how
  often it invoked the wrapped function, and the durations it slept, in order.  Durations
  are rationals: the rounding of Python's floats is not modelled.
\<close>

record 'a wrapper_run =
  outcome :: "py_error + 'a"
  invocations :: nat
  slept :: "rat list"

text \<open>The handler \<open>except (requests.exceptions.RequestException, LLMError)\<close>;
  \<open>HTTPError\<close> is a subclass of \<open>RequestException\<close>.\<close>

fun caught_by_wrapper :: "py_error \<Rightarrow> bool" where
  "caught_by_wrapper (HTTPError response) = True"
| "caught_by_wrapper RequestException = True"
| "caught_by_wrapper LLMError = True"
| "caught_by_wrapper e = False"

text \<open>The test \<open>400 <= status < 500 and status != 429\<close> on an \<open>HTTPError\<close> with a response.\<close>

fun client_error :: "py_error \<Rightarrow> bool" where
  "client_error (HTTPError (Some status)) = (400 \<le> status \<and> status < 500 \<and> status \<noteq> 429)"
| "client_error e = False"

text \<open>
  The \<open>while\<close> loop of \<open>wrapper\<close>.  The wrapped function is given by the outcome of each
  of its invocations, \<open>func k\<close> for the \<open>k\<close>-th one (from 0); \<open>delay\<close> is the constant 1.0.
  An \<open>HTTPError\<close> carries the status code of \<open>e.response\<close>, if it has a response; reading
  \<open>status_code\<close> of a missing response raises \<open>AttributeError\<close>.  \<open>time.sleep\<close> raises
  \<open>ValueError\<close> on a negative duration.  Leaving the loop with \<open>last_exception = None\<close>
  makes \<open>raise last_exception\<close> a \<open>TypeError\<close>.
\<close>

function retry_loop ::
  "int \<Rightarrow> rat \<Rightarrow> (nat \<Rightarrow> py_error + 'a) \<Rightarrow> nat \<Rightarrow> py_error option \<Rightarrow> nat \<Rightarrow> rat list
     \<Rightarrow> 'a wrapper_run"
where
  "retry_loop max_retries backoff_factor func retry_count last_exception n sl =
     (if int retry_count < max_retries then
        (case func n of
           Inr v \<Rightarrow> \<lparr>outcome = Inr v, invocations = Suc n, slept = sl\<rparr>
         | Inl e \<Rightarrow>
             if \<not> caught_by_wrapper e then
               \<lparr>outcome = Inl e, invocations = Suc n, slept = sl\<rparr>
             else if e = HTTPError None then
               \<lparr>outcome = Inl AttributeError, invocations = Suc n, slept = sl\<rparr>
             else if client_error e then
               \<lparr>outcome = Inl e, invocations = Suc n, slept = sl\<rparr>
             else if 1 * backoff_factor ^ (Suc retry_count - 1) < 0 then
               \<lparr>outcome = Inl ValueError, invocations = Suc n, slept = sl\<rparr>
             else
               retry_loop max_retries backoff_factor func (Suc retry_count) (Some e) (Suc n)
                 (sl @ [1 * backoff_factor ^ (Suc retry_count - 1)]))
      else
        (case last_exception of
           None \<Rightarrow> \<lparr>outcome = Inl TypeError, invocations = n, slept = sl\<rparr>
         | Some e \<Rightarrow> \<lparr>outcome = Inl e, invocations = n, slept = sl\<rparr>))"
  by pat_completeness auto
termination
  by (relation "measure (\<lambda>(max_retries, backoff_factor, func, retry_count, rest).
        nat (max_retries - int retry_count))") auto

definition retry_with_backoff ::
  "int \<Rightarrow> rat \<Rightarrow> (nat \<Rightarrow> py_error + 'a) \<Rightarrow> 'a wrapper_run" where
  "retry_with_backoff max_retries backoff_factor func =
     retry_loop max_retries backoff_factor func 0 None 0 []"


section \<open>LLM/token\_manager.py\<close>

text \<open>
  The tiktoken encoder is a parameter of the model: any pair of an encoding and a decoding
  function, over any type of tokens.
\<close>

record 'tok tokenizer =
  encode :: "string \<Rightarrow> 'tok list"
  decode :: "'tok list \<Rightarrow> string"

record 'tok token_manager =
  model_name :: string
  max_context_length :: int
  encoder :: "'tok tokenizer"

definition MODEL_LIMITS :: "(string \<times> int) list" where
  "MODEL_LIMITS =
     [(''gpt-3.5-turbo'', 10000),
      (''gemini-2.0-flash'', 10000),
      (''deepseek-chat'', 12000),
      (''qwen2.5-coder:7b'', 12000),
      (''qwen2.5-coder:32b'', 12000),
      (''llama3:8b'', 8000)]"

definition OUTPUT_RESERVE :: int where
  "OUTPUT_RESERVE = 1024"

text \<open>\<open>str.lower\<close> on code points below 256: the letters A..Z and the capital letters
  of Latin-1 move up by 32.\<close>

definition lower_char :: "char \<Rightarrow> char" where
  "lower_char c =
     (let n = (of_char c :: nat)
      in if (65 \<le> n \<and> n \<le> 90) \<or> (192 \<le> n \<and> n \<le> 222 \<and> n \<noteq> 215)
         then char_of (n + 32) else c)"

definition lower :: "string \<Rightarrow> string" where
  "lower s = map lower_char s"

text \<open>\<open>key in text\<close> on strings: \<open>key\<close> occurs in \<open>text\<close> as a contiguous piece.\<close>

fun str_contains :: "string \<Rightarrow> string \<Rightarrow> bool" where
  "str_contains [] key = (key = [])"
| "str_contains (c # cs) key = (take (length key) (c # cs) = key \<or> str_contains cs key)"

fun first_limit :: "(string \<times> int) list \<Rightarrow> string \<Rightarrow> int" where
  "first_limit [] name = 4096"
| "first_limit ((key, limit) # rest) name =
     (if str_contains (lower name) key then limit else first_limit rest name)"

definition get_model_limit :: "string \<Rightarrow> int" where
  "get_model_limit name = first_limit MODEL_LIMITS name"

text \<open>\<open>__init__\<close>; \<open>enc\<close> is the encoder tiktoken hands out for the model, or the
  \<open>cl100k_base\<close> one it falls back to.\<close>

definition token_manager_init :: "string \<Rightarrow> 'tok tokenizer \<Rightarrow> 'tok token_manager" where
  "token_manager_init name enc =
     \<lparr>model_name = name, max_context_length = get_model_limit name, encoder = enc\<rparr>"

definition count_tokens :: "'tok token_manager \<Rightarrow> string \<Rightarrow> int" where
  "count_tokens tm text = (if text = [] then 0 else int (length (encode (encoder tm) text)))"

definition truncate_text :: "'tok token_manager \<Rightarrow> string \<Rightarrow> int \<Rightarrow> bool \<Rightarrow> string" where
  "truncate_text tm text max_tokens from_end =
     (if max_tokens \<le> 0 then []
      else if int (length (encode (encoder tm) text)) \<le> max_tokens then text
      else if from_end then
        decode (encoder tm)
          (drop (length (encode (encoder tm) text) - nat max_tokens) (encode (encoder tm) text))
      else decode (encoder tm) (take (nat max_tokens) (encode (encoder tm) text)))"

definition truncation_notice :: string where
  "truncation_notice = [LF] @ ''... (Context truncated due to length) ...''"

text \<open>Lines 84 to 92 of \<open>optimize_prompt\<close>, which both branches of its first test reach.\<close>

definition fit_context :: "'tok token_manager \<Rightarrow> string \<Rightarrow> int \<Rightarrow> string" where
  "fit_context tm dynamic_context available =
     (if count_tokens tm dynamic_context > available then
        truncate_text tm dynamic_context available False @ truncation_notice
      else dynamic_context)"

definition safe_limit :: "'tok token_manager \<Rightarrow> int" where
  "safe_limit tm = max_context_length tm - OUTPUT_RESERVE"

text \<open>The first value the source gives \<open>available_for_context\<close>.\<close>

definition available_for_context :: "'tok token_manager \<Rightarrow> string list \<Rightarrow> string \<Rightarrow> int" where
  "available_for_context tm static_parts feedback_part =
     safe_limit tm - count_tokens tm (str_join [LF] static_parts) - count_tokens tm feedback_part"

definition optimize_prompt ::
  "'tok token_manager \<Rightarrow> string list \<Rightarrow> string \<Rightarrow> string \<Rightarrow> string" where
  "optimize_prompt tm static_parts dynamic_context feedback_part =
     (let static_text = str_join [LF] static_parts;
          static_tokens = count_tokens tm static_text
      in if available_for_context tm static_parts feedback_part < 0 then
           (let feedback_budget = max 0 (safe_limit tm - static_tokens);
                feedback_cut = truncate_text tm feedback_part feedback_budget True;
                available = safe_limit tm - static_tokens - count_tokens tm feedback_cut
            in if available < 0 then static_text
               else fit_context tm dynamic_context available)
         else
           fit_context tm dynamic_context (available_for_context tm static_parts feedback_part))"

text \<open>A tokenizer to compute with: every character is a token.\<close>

definition char_tokenizer :: "char tokenizer" where
  "char_tokenizer = \<lparr>encode = (\<lambda>s. s), decode = (\<lambda>ts. ts)\<rparr>"

definition tm0 :: "char token_manager" where
  "tm0 = token_manager_init ''my-model'' char_tokenizer"


section \<open>Values decoded from JSON, and \<open>int()\<close>\<close>

text \<open>
  A Python float is a rational or one of the three special values; \<open>json.loads\<close> yields
  the special ones for \<open>Infinity\<close>, \<open>-Infinity\<close> and \<open>NaN\<close>.  A decoded object is the list of
  the items of its dictionary.
\<close>

datatype py_float = Finite rat | PosInf | NegInf | NaN

datatype json =
    JNull
  | JBool bool
  | JInt int
  | JFloat py_float
  | JStr string
  | JList "json list"
  | JObj "(string \<times> json) list"

text \<open>
  The two library functions the sources call on query output are parameters of the model:
  \<open>json.loads\<close>, which returns a value or raises (\<open>JSONDecodeError\<close> on a text that is not
  JSON), and \<open>int\<close> on a string.
\<close>

record pylib =
  json_loads :: "string \<Rightarrow> py_error + json"
  int_of_str :: "string \<Rightarrow> py_error + int"

text \<open>\<open>int(x)\<close> for a decoded value: a float is cut towards zero.\<close>

fun py_int :: "pylib \<Rightarrow> json \<Rightarrow> py_error + int" where
  "py_int lib JNull = Inl TypeError"
| "py_int lib (JBool b) = Inr (if b then 1 else 0)"
| "py_int lib (JInt n) = Inr n"
| "py_int lib (JFloat (Finite q)) = Inr (if q < 0 then - \<lfloor>- q\<rfloor> else \<lfloor>q\<rfloor>)"
| "py_int lib (JFloat PosInf) = Inl OverflowError"
| "py_int lib (JFloat NegInf) = Inl OverflowError"
| "py_int lib (JFloat NaN) = Inl ValueError"
| "py_int lib (JStr s) = int_of_str lib s"
| "py_int lib (JList xs) = Inl TypeError"
| "py_int lib (JObj kvs) = Inl TypeError"

text \<open>Truth value of a decoded value, as \<open>if x\<close>, \<open>x or y\<close> and \<open>x and y\<close> test it.\<close>

fun truthy :: "json \<Rightarrow> bool" where
  "truthy JNull = False"
| "truthy (JBool b) = b"
| "truthy (JInt n) = (n \<noteq> 0)"
| "truthy (JFloat f) = (f \<noteq> Finite 0)"
| "truthy (JStr s) = (s \<noteq> [])"
| "truthy (JList xs) = (xs \<noteq> [])"
| "truthy (JObj kvs) = (kvs \<noteq> [])"

text \<open>\<open>item.get(key)\<close>: only a dictionary has the method.\<close>

fun dict_get :: "json \<Rightarrow> string \<Rightarrow> py_error + json" where
  "dict_get (JObj kvs) key = Inr (case map_of kvs key of None \<Rightarrow> JNull | Some v \<Rightarrow> v)"
| "dict_get v key = Inl AttributeError"

definition startswith :: "string \<Rightarrow> char \<Rightarrow> bool" where
  "startswith s c = (case s of [] \<Rightarrow> False | d # ds \<Rightarrow> d = c)"

definition endswith :: "string \<Rightarrow> char \<Rightarrow> bool" where
  "endswith s c = (case rev s of [] \<Rightarrow> False | d # ds \<Rightarrow> d = c)"

definition bracketed :: "string \<Rightarrow> bool" where
  "bracketed line = (startswith line CHR ''['' \<and> endswith line CHR '']'')"


subsection \<open>A decoder to compute with\<close>

text \<open>
  For concrete inputs, a decoder of the JSON texts built from arrays, objects, integers,
  \<open>null\<close>, \<open>true\<close>, \<open>false\<close> and strings without escapes, and a reading of decimal
  integers with optional sign and surrounding blanks.  On those texts they agree with
  \<open>json.loads\<close> and \<open>int\<close>; fractions, exponents, the special floats and escapes, and
  digit separators in \<open>int\<close>, are outside of them and rejected.
\<close>

definition json_ws :: "char \<Rightarrow> bool" where
  "json_ws c = (of_char c \<in> {32, 9, 10, 13 :: nat})"

definition is_digit :: "char \<Rightarrow> bool" where
  "is_digit c = (48 \<le> (of_char c :: nat) \<and> (of_char c :: nat) \<le> 57)"

definition digits_value :: "string \<Rightarrow> int" where
  "digits_value ds = foldl (\<lambda>n c. 10 * n + (int (of_char c) - 48)) 0 ds"

definition decode_number :: "string \<Rightarrow> (json \<times> string) option" where
  "decode_number s =
     (let neg = startswith s CHR ''-'';
          body = (if neg then tl s else s);
          ds = takeWhile is_digit body;
          rest = dropWhile is_digit body
      in if ds = [] \<or> (length ds > 1 \<and> hd ds = CHR ''0'') then None
         else if startswith rest CHR ''.'' \<or> startswith rest CHR ''e'' \<or> startswith rest CHR ''E''
         then None
         else Some (JInt (if neg then - digits_value ds else digits_value ds), rest))"

definition decode_string :: "string \<Rightarrow> (json \<times> string) option" where
  "decode_string s =
     (let body = takeWhile (\<lambda>c. c \<noteq> CHR 0x22) s;
          rest = dropWhile (\<lambda>c. c \<noteq> CHR 0x22) s
      in if rest = [] \<or> list_ex (\<lambda>c. c = CHR 0x5C \<or> (of_char c :: nat) < 32) body then None
         else Some (JStr body, tl rest))"

text \<open>Storing a key in a dictionary: a key that is there keeps its place and takes the
  new value.\<close>

fun dict_set :: "string \<Rightarrow> json \<Rightarrow> (string \<times> json) list \<Rightarrow> (string \<times> json) list" where
  "dict_set k v [] = [(k, v)]"
| "dict_set k v ((k', v') # kvs) =
     (if k = k' then (k, v) # kvs else (k', v') # dict_set k v kvs)"

fun decode_value :: "nat \<Rightarrow> string \<Rightarrow> (json \<times> string) option"
  and decode_items :: "nat \<Rightarrow> string \<Rightarrow> (json list \<times> string) option"
  and decode_members :: "nat \<Rightarrow> string \<Rightarrow> ((string \<times> json) list \<times> string) option"
where
  "decode_value 0 s = None"
| "decode_value (Suc fuel) s =
     (case dropWhile json_ws s of
        [] \<Rightarrow> None
      | c # r \<Rightarrow>
          if c = CHR ''['' then
            (if startswith (dropWhile json_ws r) CHR '']''
             then Some (JList [], tl (dropWhile json_ws r))
             else (case decode_items fuel r of
                     None \<Rightarrow> None
                   | Some (xs, r') \<Rightarrow> Some (JList xs, r')))
          else if c = CHR 0x7B then
            (if startswith (dropWhile json_ws r) CHR 0x7D
             then Some (JObj [], tl (dropWhile json_ws r))
             else (case decode_members fuel r of
                     None \<Rightarrow> None
                   | Some (kvs, r') \<Rightarrow>
                       Some (JObj (foldl (\<lambda>d (k, v). dict_set k v d) [] kvs), r')))
          else if c = CHR 0x22 then decode_string r
          else if take 4 (c # r) = ''null'' then Some (JNull, drop 4 (c # r))
          else if take 4 (c # r) = ''true'' then Some (JBool True, drop 4 (c # r))
          else if take 5 (c # r) = ''false'' then Some (JBool False, drop 5 (c # r))
          else decode_number (c # r))"
| "decode_items 0 s = None"
| "decode_items (Suc fuel) s =
     (case decode_value fuel s of
        None \<Rightarrow> None
      | Some (v, r) \<Rightarrow>
          (case dropWhile json_ws r of
             [] \<Rightarrow> None
           | c # r' \<Rightarrow>
               if c = CHR '']'' then Some ([v], r')
               else if c = CHR '','' then
                 (case decode_items fuel r' of
                    None \<Rightarrow> None
                  | Some (vs, r'') \<Rightarrow> Some (v # vs, r''))
               else None))"
| "decode_members 0 s = None"
| "decode_members (Suc fuel) s =
     (if \<not> startswith (dropWhile json_ws s) (CHR 0x22) then None
      else
        (case decode_string (tl (dropWhile json_ws s)) of
           Some (JStr k, r1) \<Rightarrow>
             (if \<not> startswith (dropWhile json_ws r1) CHR '':'' then None
              else
                (case decode_value fuel (tl (dropWhile json_ws r1)) of
                   None \<Rightarrow> None
                 | Some (v, r2) \<Rightarrow>
                     (case dropWhile json_ws r2 of
                        [] \<Rightarrow> None
                      | c # r3 \<Rightarrow>
                          if c = CHR 0x7D then Some ([(k, v)], r3)
                          else if c = CHR '','' then
                            (case decode_members fuel r3 of
                               None \<Rightarrow> None
                             | Some (kvs, r4) \<Rightarrow> Some ((k, v) # kvs, r4))
                          else None)))
         | other \<Rightarrow> None))"

definition json_decode :: "string \<Rightarrow> py_error + json" where
  "json_decode s =
     (case decode_value (Suc (length s)) s of
        None \<Rightarrow> Inl JSONDecodeError
      | Some (v, r) \<Rightarrow> if dropWhile json_ws r = [] then Inr v else Inl JSONDecodeError)"

definition int_decimal :: "string \<Rightarrow> py_error + int" where
  "int_decimal s =
     (let t = strip s;
          neg = startswith t CHR ''-'';
          ds = (if neg \<or> startswith t CHR ''+'' then tl t else t)
      in if ds \<noteq> [] \<and> list_all is_digit ds
         then Inr (if neg then - digits_value ds else digits_value ds)
         else Inl ValueError)"

definition demo_lib :: pylib where
  "demo_lib = \<lparr>json_loads = json_decode, int_of_str = int_decimal\<rparr>"


section \<open>core/artifact.py\<close>

record artifact =
  project_name :: string
  bug_id :: string
  file_path :: string
  method_name :: string
  buggy_line_no :: int
  source_code :: string
  language :: string

record dual_layer_context =
  data_dependency_slice :: string
  control_dependency_slice :: string
  peripheral_context :: string

text \<open>\<open>DualLayerContext()\<close>: every field has the default \<open>""\<close>.\<close>

definition empty_context :: dual_layer_context where
  "empty_context =
     \<lparr>data_dependency_slice = [], control_dependency_slice = [], peripheral_context = []\<rparr>"


section \<open>analysis/FDS.py: the focused slicer\<close>

text \<open>
  The parameters of a slicing query.  \<open>lineNumber\<close> holds the number whose decimal text
  the source passes; \<open>methodName\<close> is present only for a non-empty method name.
\<close>

record query_params =
  filename :: string
  lineNumber :: "int option"
  methodName :: "string option"

text \<open>
  \<open>JoernBridge.execute_query_script\<close> runs an external program.  It is a parameter of the
  model: from the graph path, the script path and the parameters to the text the program
  printed, or to the exception raised.
\<close>

type_synonym joern = "string \<Rightarrow> string \<Rightarrow> query_params \<Rightarrow> py_error + string"

text \<open>The set comprehension \<open>{int(x) for x in data if x is not None}\<close>, entry by entry; the
  first \<open>int\<close> that raises ends it.\<close>

fun int_entries :: "pylib \<Rightarrow> json list \<Rightarrow> py_error + int list" where
  "int_entries lib [] = Inr []"
| "int_entries lib (x # xs) =
     (if x = JNull then int_entries lib xs
      else
        (case py_int lib x of
           Inl e \<Rightarrow> Inl e
         | Inr n \<Rightarrow>
             (case int_entries lib xs of
                Inl e \<Rightarrow> Inl e
              | Inr ns \<Rightarrow> Inr (n # ns))))"

text \<open>The loop \<open>for line in reversed(lines)\<close> of \<open>_parse_joern_list_output\<close>; only
  \<open>JSONDecodeError\<close> is handled inside it.\<close>

fun scan_list_lines :: "pylib \<Rightarrow> string list \<Rightarrow> py_error + int set" where
  "scan_list_lines lib [] = Inr {}"
| "scan_list_lines lib (line # rest) =
     (if bracketed (strip line) then
        (case json_loads lib (strip line) of
           Inl e \<Rightarrow> if e = JSONDecodeError then scan_list_lines lib rest else Inl e
         | Inr (JList items) \<Rightarrow>
             (case int_entries lib items of Inl e \<Rightarrow> Inl e | Inr ns \<Rightarrow> Inr (set ns))
         | Inr other \<Rightarrow> scan_list_lines lib rest)
      else scan_list_lines lib rest)"

definition parse_joern_list_output :: "pylib \<Rightarrow> string \<Rightarrow> py_error + int set" where
  "parse_joern_list_output lib raw_output =
     (if raw_output = [] then Inr {}
      else scan_list_lines lib (rev (splitlines (strip raw_output))))"

text \<open>\<open>_run_slicing_strategy\<close>: the handler \<open>except Exception\<close> turns every exception
  of the query or of the parsing into the empty set.\<close>

definition run_slicing_strategy ::
  "pylib \<Rightarrow> joern \<Rightarrow> string \<Rightarrow> string \<Rightarrow> query_params \<Rightarrow> py_error + int set" where
  "run_slicing_strategy lib execute_query_script cpg_path script_path params =
     (case (case execute_query_script cpg_path script_path params of
              Inl e \<Rightarrow> Inl e
            | Inr raw_output \<Rightarrow> parse_joern_list_output lib raw_output) of
        Inl e \<Rightarrow> if is_exception e then Inr {} else Inl e
      | Inr parsed_lines \<Rightarrow> Inr parsed_lines)"

definition no_dependencies :: string where
  "no_dependencies = ''(No dependencies found or slicing failed)''"

definition construct_code_block :: "string list \<Rightarrow> int set \<Rightarrow> string" where
  "construct_code_block source_lines line_numbers =
     (if line_numbers = {} then no_dependencies
      else str_join [LF]
        (map (\<lambda>line_no. source_lines ! nat (line_no - 1))
           (filter (\<lambda>line_no. 0 \<le> line_no - 1 \<and> line_no - 1 \<le> int (length source_lines) - 1)
              (sorted_list_of_set line_numbers))))"

text \<open>The scripts of the two slices, \<open>ddg_script_path\<close> and \<open>cdg_script_path\<close>.\<close>

record slicer =
  ddg_script_path :: string
  cdg_script_path :: string

text \<open>
  The two line sets \<open>generate_slices\<close> computes, \<open>ddg_lines\<close> and \<open>cdg_lines\<close>.  With an
  empty method name the source logs a warning that reads \<open>artifact.buggy_id\<close>, an attribute
  the artifact does not have.
\<close>

definition slice_line_sets ::
  "pylib \<Rightarrow> joern \<Rightarrow> slicer \<Rightarrow> string \<Rightarrow> artifact \<Rightarrow> py_error + int set \<times> int set" where
  "slice_line_sets lib execute_query_script sl cpg_path art =
     (if method_name art = [] then Inl AttributeError
      else
        (let params = \<lparr>filename = file_path art, lineNumber = Some (buggy_line_no art),
                        methodName = Some (method_name art)\<rparr>
         in case run_slicing_strategy lib execute_query_script cpg_path (ddg_script_path sl) params of
              Inl e \<Rightarrow> Inl e
            | Inr ddg_lines \<Rightarrow>
                (case run_slicing_strategy lib execute_query_script cpg_path (cdg_script_path sl) params of
                   Inl e \<Rightarrow> Inl e
                 | Inr cdg_lines \<Rightarrow> Inr (ddg_lines, cdg_lines))))"

definition generate_slices ::
  "pylib \<Rightarrow> joern \<Rightarrow> slicer \<Rightarrow> string \<Rightarrow> artifact \<Rightarrow> py_error + string \<times> string" where
  "generate_slices lib execute_query_script sl cpg_path art =
     (if cpg_path = [] then Inr ([], [])
      else
        (case slice_line_sets lib execute_query_script sl cpg_path art of
           Inl e \<Rightarrow> Inl e
         | Inr (ddg_lines, cdg_lines) \<Rightarrow>
             Inr (construct_code_block (splitlines (source_code art)) ddg_lines,
                  construct_code_block (splitlines (source_code art)) cdg_lines)))"


section \<open>analysis/PCSC.py: structural ranges\<close>

text \<open>\<open>item.get("startLine") or item.get("start")\<close>.\<close>

definition get_either :: "json \<Rightarrow> string \<Rightarrow> string \<Rightarrow> py_error + json" where
  "get_either item k1 k2 =
     (case dict_get item k1 of
        Inl e \<Rightarrow> Inl e
      | Inr a \<Rightarrow> if truthy a then Inr a else dict_get item k2)"

text \<open>The loop \<open>for item in data\<close> of \<open>_parse_ranges\<close>.\<close>

fun range_items :: "pylib \<Rightarrow> json list \<Rightarrow> py_error + line_range list" where
  "range_items lib [] = Inr []"
| "range_items lib (item # rest) =
     (case get_either item ''startLine'' ''start'' of
        Inl e \<Rightarrow> Inl e
      | Inr s \<Rightarrow>
          (case get_either item ''endLine'' ''end'' of
             Inl e \<Rightarrow> Inl e
           | Inr e \<Rightarrow>
               if truthy s \<and> truthy e then
                 (case py_int lib s of
                    Inl err \<Rightarrow> Inl err
                  | Inr si \<Rightarrow>
                      (case py_int lib e of
                         Inl err \<Rightarrow> Inl err
                       | Inr ei \<Rightarrow>
                           (case range_items lib rest of
                              Inl err \<Rightarrow> Inl err
                            | Inr rs \<Rightarrow> Inr (\<lparr>r_start = si, r_end = ei\<rparr> # rs))))
               else range_items lib rest))"

fun scan_range_lines :: "pylib \<Rightarrow> string list \<Rightarrow> py_error + line_range list" where
  "scan_range_lines lib [] = Inr []"
| "scan_range_lines lib (line # rest) =
     (if bracketed (strip line) then
        (case json_loads lib (strip line) of
           Inl e \<Rightarrow> if e = JSONDecodeError then scan_range_lines lib rest else Inl e
         | Inr (JList items) \<Rightarrow> range_items lib items
         | Inr other \<Rightarrow> scan_range_lines lib rest)
      else scan_range_lines lib rest)"

definition parse_ranges :: "pylib \<Rightarrow> string \<Rightarrow> py_error + line_range list" where
  "parse_ranges lib raw_output =
     (if raw_output = [] then Inr []
      else scan_range_lines lib (rev (splitlines (strip raw_output))))"

text \<open>\<open>PeripheralContextExtractor.generate_context\<close>, with its script path
  \<open>skeleton_script\<close>; the handler \<open>except Exception\<close> answers the source text.\<close>

definition generate_context ::
  "pylib \<Rightarrow> joern \<Rightarrow> string \<Rightarrow> string \<Rightarrow> artifact \<Rightarrow> py_error + string" where
  "generate_context lib execute_query_script skeleton_script cpg_path art =
     (if cpg_path = [] then Inr []
      else
        (case (case execute_query_script cpg_path skeleton_script
                      \<lparr>filename = file_path art, lineNumber = None, methodName = None\<rparr> of
                 Inl e \<Rightarrow> Inl e
               | Inr raw_output \<Rightarrow> parse_ranges lib raw_output) of
           Inl e \<Rightarrow> if is_exception e then Inr (source_code art) else Inl e
         | Inr ranges_to_hide \<Rightarrow> Inr (create_skeleton (source_code art) ranges_to_hide)))"


section \<open>analysis/dual\_layer\_conetxt.py: the mixed context\<close>

text \<open>The set \<open>slice_lines_set\<close> of \<open>build_mixed_context\<close>: the union of the two slices,
  to which the buggy line is added.\<close>

definition mixed_slice_lines ::
  "pylib \<Rightarrow> joern \<Rightarrow> slicer \<Rightarrow> string \<Rightarrow> artifact \<Rightarrow> py_error + int set" where
  "mixed_slice_lines lib execute_query_script sl cpg_path art =
     (let params = \<lparr>filename = file_path art, lineNumber = Some (buggy_line_no art),
                     methodName = (if method_name art = [] then None else Some (method_name art))\<rparr>
      in case run_slicing_strategy lib execute_query_script cpg_path (ddg_script_path sl) params of
           Inl e \<Rightarrow> Inl e
         | Inr ddg_lines \<Rightarrow>
             (case run_slicing_strategy lib execute_query_script cpg_path (cdg_script_path sl) params of
                Inl e \<Rightarrow> Inl e
              | Inr cdg_lines \<Rightarrow> Inr (insert (buggy_line_no art) (ddg_lines \<union> cdg_lines))))"

definition build_mixed_context ::
  "pylib \<Rightarrow> joern \<Rightarrow> slicer \<Rightarrow> string \<Rightarrow> string \<Rightarrow> artifact \<Rightarrow> py_error + string" where
  "build_mixed_context lib execute_query_script sl skeleton_script cpg_path art =
     (if cpg_path = [] then Inr (source_code art)
      else
        (case mixed_slice_lines lib execute_query_script sl cpg_path art of
           Inl e \<Rightarrow> Inl e
         | Inr slice_lines_set \<Rightarrow>
             (case execute_query_script cpg_path skeleton_script
                     \<lparr>filename = file_path art, lineNumber = None, methodName = None\<rparr> of
                Inl e \<Rightarrow> Inl e
              | Inr raw_ast_output \<Rightarrow>
                  (case parse_ranges lib raw_ast_output of
                     Inl e \<Rightarrow> Inl e
                   | Inr ranges_to_hide \<Rightarrow>
                       stitch_code (source_code art) slice_lines_set ranges_to_hide))))"


section \<open>core/patch.py\<close>

datatype patch_status = GENERATED | COMPILATION_FAILED | TEST_FAILED | PLAUSIBLE | TIMEOUT

text \<open>\<open>TestResult\<close>, without its \<open>execution_time\<close>.\<close>

record test_result =
  passed :: bool
  error_message :: "string option"
  failed_test_name :: "string option"

record candidate_patch =
  patch_bug_id :: string
  raw_output :: string
  cleaned_code :: string
  llm_model :: string
  round_number :: int
  diff :: string
  status :: patch_status
  patch_test_result :: "test_result option"


section \<open>execution/file\_manager.py\<close>

text \<open>
  The files of the workspace: the content of every path that exists, and the paths that
  cannot be opened for writing (copying onto one of them or writing it raises \<open>IOError\<close>,
  which \<open>FileManager\<close> turns into \<open>FileOperationError\<close>).
\<close>

record file_system =
  files :: "string \<rightharpoonup> string"
  locked :: "string set"

text \<open>\<open>src.with_suffix(src.suffix + ".bak")\<close>: the path with \<open>.bak\<close> appended.\<close>

definition bak :: "string \<Rightarrow> string" where
  "bak path = path @ ''.bak''"

definition backup_file :: "file_system \<Rightarrow> string \<Rightarrow> (py_error + bool) \<times> file_system" where
  "backup_file fs path =
     (case files fs path of
        None \<Rightarrow> (Inr False, fs)
      | Some content \<Rightarrow>
          if files fs (bak path) \<noteq> None then (Inr True, fs)
          else if bak path \<in> locked fs then (Inl FileOperationError, fs)
          else (Inr True, fs\<lparr>files := (files fs)(bak path \<mapsto> content)\<rparr>))"

definition restore_file :: "file_system \<Rightarrow> string \<Rightarrow> (py_error + bool) \<times> file_system" where
  "restore_file fs path =
     (case files fs (bak path) of
        None \<Rightarrow> (Inr False, fs)
      | Some content \<Rightarrow>
          if path \<in> locked fs then (Inl FileOperationError, fs)
          else (Inr True, fs\<lparr>files := (files fs)(path \<mapsto> content)\<rparr>))"

text \<open>\<open>write_patch\<close> with its default \<open>create_backup=True\<close>.\<close>

definition write_patch :: "file_system \<Rightarrow> string \<Rightarrow> string \<Rightarrow> (py_error + unit) \<times> file_system" where
  "write_patch fs path new_content =
     (case backup_file fs path of
        (Inl e, fs1) \<Rightarrow> (Inl e, fs1)
      | (Inr made, fs1) \<Rightarrow>
          if path \<in> locked fs1 then (Inl FileOperationError, fs1)
          else (Inr (), fs1\<lparr>files := (files fs1)(path \<mapsto> new_content)\<rparr>))"


section \<open>workflow.py: the repair rounds\<close>

record repair_session =
  session_artifact :: artifact
  session_context :: dual_layer_context
  workspace_dir :: string

text \<open>
  The three methods \<open>run_repair\<close> calls on \<open>self\<close>.  The class gives
  \<open>_extract_code_block\<close> the body \<open>pass\<close> and defines neither \<open>_get_round_name\<close> nor
  \<open>_record_patch\<close>, so that looking them up raises \<open>AttributeError\<close>: that is
  \<open>source_helpers\<close>.  \<open>run_repair\<close> is modelled for any three such methods.
\<close>

record helpers =
  get_round_name :: "int \<Rightarrow> py_error + string"
  extract_block :: "string \<Rightarrow> string option"
  record_patch :: "candidate_patch \<Rightarrow> py_error + unit"

definition extract_code_block :: "string \<Rightarrow> string option" where
  "extract_code_block text = None"

definition source_helpers :: helpers where
  "source_helpers =
     \<lparr>get_round_name = (\<lambda>round_num. Inl AttributeError),
      extract_block = extract_code_block,
      record_patch = (\<lambda>patch. Inl AttributeError)\<rparr>"

text \<open>
  The collaborators outside of the core: the query engine and the two library functions,
  the prompt composer, the completion service (by round), the test runner (which reads
  the workspace), the container start (an exception, or none), \<open>difflib\<close> and the text
  \<open>str(e)\<close> of an exception.
\<close>

record collaborators =
  library :: pylib
  execute_query_script :: joern
  scripts :: slicer
  skeleton_script :: string
  generate_cpg :: "artifact \<Rightarrow> py_error + string"
  provision_container :: "py_error option"
  construct_prompt :: "repair_session \<Rightarrow> int \<Rightarrow> test_result option \<Rightarrow> py_error + string"
  generate_completion :: "int \<Rightarrow> string \<Rightarrow> py_error + string"
  llm_model_name :: string
  run_tests :: "artifact \<Rightarrow> file_system \<Rightarrow> py_error + test_result"
  compute_diff :: "string \<Rightarrow> string \<Rightarrow> string \<Rightarrow> string"
  describe :: "py_error \<Rightarrow> string"

text \<open>Steps 1 and 2 of \<open>run_repair\<close>, inside \<open>try ... except Exception\<close>.\<close>

definition analyse :: "collaborators \<Rightarrow> artifact \<Rightarrow> py_error + dual_layer_context" where
  "analyse c art =
     (case
        (case generate_cpg c art of
           Inl e \<Rightarrow> Inl e
         | Inr cpg_path \<Rightarrow>
             (case generate_slices (library c) (execute_query_script c) (scripts c) cpg_path art of
                Inl e \<Rightarrow> Inl e
              | Inr (ddg_slice, cdg_slice) \<Rightarrow>
                  (case generate_context (library c) (execute_query_script c) (skeleton_script c)
                          cpg_path art of
                     Inl e \<Rightarrow> Inl e
                   | Inr periphery \<Rightarrow>
                       Inr \<lparr>data_dependency_slice = ddg_slice,
                            control_dependency_slice = cdg_slice,
                            peripheral_context = periphery\<rparr>)))
      of
        Inl e \<Rightarrow> if is_exception e then Inr empty_context else Inl e
      | Inr context \<Rightarrow> Inr context)"

text \<open>
  The state of the loop: \<open>last_test_result\<close> and the workspace.  \<open>composed\<close> is not a
  variable of the source: it records, for every round that composed a prompt, the feedback
  it composed it with.
\<close>

record loop_state =
  last_test_result :: "test_result option"
  workspace :: file_system
  composed :: "(int \<times> test_result option) list"

datatype round_exit = Continue | Return bool | Raise py_error

definition no_code_block_result :: test_result where
  "no_code_block_result =
     \<lparr>passed = False, error_message = Some ''LLM did not return a valid code block.'',
      failed_test_name = None\<rparr>"

text \<open>Lines 134 to 150: the tests have run on the patched file.\<close>

definition after_tests ::
  "helpers \<Rightarrow> artifact \<Rightarrow> candidate_patch \<Rightarrow> test_result \<Rightarrow> loop_state \<Rightarrow> round_exit \<times> loop_state" where
  "after_tests h art patch result st =
     (let st1 = st\<lparr>last_test_result := Some result\<rparr>
      in if passed result then
           (case record_patch h (patch\<lparr>patch_test_result := Some result, status := PLAUSIBLE\<rparr>) of
              Inl e \<Rightarrow> (Raise e, st1)
            | Inr u \<Rightarrow>
                (case restore_file (workspace st1) (file_path art) of
                   (Inl e, fs) \<Rightarrow> (Raise e, st1\<lparr>workspace := fs\<rparr>)
                 | (Inr r, fs) \<Rightarrow> (Return True, st1\<lparr>workspace := fs\<rparr>)))
         else if error_message result = None then (Raise TypeError, st1)
         else
           (case record_patch h (patch\<lparr>patch_test_result := Some result, status := TEST_FAILED\<rparr>) of
              Inl e \<Rightarrow> (Raise e, st1)
            | Inr u \<Rightarrow>
                (case restore_file (workspace st1) (file_path art) of
                   (Inl e, fs) \<Rightarrow> (Raise e, st1\<lparr>workspace := fs\<rparr>)
                 | (Inr r, fs) \<Rightarrow> (Continue, st1\<lparr>workspace := fs\<rparr>))))"

text \<open>Lines 112 to 150: a code block was extracted.\<close>

definition apply_patch ::
  "helpers \<Rightarrow> collaborators \<Rightarrow> artifact \<Rightarrow> int \<Rightarrow> string \<Rightarrow> string \<Rightarrow> loop_state
     \<Rightarrow> round_exit \<times> loop_state" where
  "apply_patch h c art round_num raw_response code_block st =
     (let patch = \<lparr>patch_bug_id = bug_id art, raw_output = raw_response,
                    cleaned_code = code_block, llm_model = llm_model_name c,
                    round_number = round_num, diff = [], status = GENERATED,
                    patch_test_result = None\<rparr>
      in case write_patch (workspace st) (file_path art) code_block of
           (Inl e, fs) \<Rightarrow>
             if is_exception e then
               (case record_patch h (patch\<lparr>status := COMPILATION_FAILED\<rparr>) of
                  Inl e' \<Rightarrow>
                    (Raise e',
                     st\<lparr>workspace := fs,
                        last_test_result :=
                          Some \<lparr>passed = False,
                                error_message = Some (''File write error: '' @ describe c e),
                                failed_test_name = None\<rparr>\<rparr>)
                | Inr u \<Rightarrow>
                    (Continue,
                     st\<lparr>workspace := fs,
                        last_test_result :=
                          Some \<lparr>passed = False,
                                error_message = Some (''File write error: '' @ describe c e),
                                failed_test_name = None\<rparr>\<rparr>))
             else (Raise e, st\<lparr>workspace := fs\<rparr>)
         | (Inr u, fs) \<Rightarrow>
             (case run_tests c art fs of
                Inl e \<Rightarrow> (Raise e, st\<lparr>workspace := fs\<rparr>)
              | Inr result \<Rightarrow>
                  after_tests h art
                    (patch\<lparr>diff := compute_diff c (source_code art) code_block (file_path art)\<rparr>)
                    result (st\<lparr>workspace := fs\<rparr>)))"

text \<open>One pass through the body of \<open>for round_num in range(1, self.max_rounds + 1)\<close>.\<close>

definition repair_round ::
  "helpers \<Rightarrow> collaborators \<Rightarrow> artifact \<Rightarrow> repair_session \<Rightarrow> int \<Rightarrow> loop_state
     \<Rightarrow> round_exit \<times> loop_state" where
  "repair_round h c art session round_num st =
     (case get_round_name h round_num of
        Inl e \<Rightarrow> (Raise e, st)
      | Inr round_name \<Rightarrow>
          (case construct_prompt c session round_num (last_test_result st) of
             Inl e \<Rightarrow> (Raise e, st)
           | Inr prompt \<Rightarrow>
               (let st1 = st\<lparr>composed := composed st @ [(round_num, last_test_result st)]\<rparr>
                in case generate_completion c round_num prompt of
                     Inl e \<Rightarrow> if is_exception e then (Continue, st1) else (Raise e, st1)
                   | Inr raw_response \<Rightarrow>
                       (case extract_block h raw_response of
                          None \<Rightarrow>
                            (Continue, st1\<lparr>last_test_result := Some no_code_block_result\<rparr>)
                        | Some code_block \<Rightarrow>
                            if code_block = [] then
                              (Continue, st1\<lparr>last_test_result := Some no_code_block_result\<rparr>)
                            else apply_patch h c art round_num raw_response code_block st1))))"

fun repair_rounds ::
  "helpers \<Rightarrow> collaborators \<Rightarrow> artifact \<Rightarrow> repair_session \<Rightarrow> int list \<Rightarrow> loop_state
     \<Rightarrow> round_exit \<times> loop_state" where
  "repair_rounds h c art session [] st = (Continue, st)"
| "repair_rounds h c art session (round_num # rest) st =
     (case repair_round h c art session round_num st of
        (Continue, st1) \<Rightarrow> repair_rounds h c art session rest st1
      | (Return b, st1) \<Rightarrow> (Return b, st1)
      | (Raise e, st1) \<Rightarrow> (Raise e, st1))"

text \<open>What a session did: the value \<open>run_repair\<close> returned or the exception it raised, the
  workspace it left, and the feedback of the rounds.\<close>

record session_result =
  returned :: "py_error + bool"
  left :: file_system
  feedback :: "(int \<times> test_result option) list"

definition run_repair ::
  "helpers \<Rightarrow> collaborators \<Rightarrow> int \<Rightarrow> string \<Rightarrow> artifact \<Rightarrow> file_system \<Rightarrow> session_result" where
  "run_repair h c max_rounds workspace_root art fs =
     (case backup_file fs (file_path art) of
        (Inl e, fs1) \<Rightarrow> \<lparr>returned = Inl e, left = fs1, feedback = []\<rparr>
      | (Inr made, fs1) \<Rightarrow>
          (case analyse c art of
             Inl e \<Rightarrow> \<lparr>returned = Inl e, left = fs1, feedback = []\<rparr>
           | Inr context \<Rightarrow>
               (case provision_container c of
                  Some e \<Rightarrow> \<lparr>returned = Inl e, left = fs1, feedback = []\<rparr>
                | None \<Rightarrow>
                    (case repair_rounds h c art
                            \<lparr>session_artifact = art, session_context = context,
                             workspace_dir = workspace_root\<rparr>
                            (py_range 1 (max_rounds + 1))
                            \<lparr>last_test_result = None, workspace = fs1, composed = []\<rparr> of
                       (Return b, st) \<Rightarrow>
                         \<lparr>returned = Inr b, left = workspace st, feedback = composed st\<rparr>
                     | (Raise e, st) \<Rightarrow>
                         \<lparr>returned = Inl e, left = workspace st, feedback = composed st\<rparr>
                     | (Continue, st) \<Rightarrow>
                         (case restore_file (workspace st) (file_path art) of
                            (Inl e, fs2) \<Rightarrow>
                              \<lparr>returned = Inl e, left = fs2, feedback = composed st\<rparr>
                          | (Inr r, fs2) \<Rightarrow>
                              \<lparr>returned = Inr False, left = fs2, feedback = composed st\<rparr>)))))"


section \<open>Notions used to state the properties\<close>

text \<open>Line \<open>i\<close> (1-based) lies strictly between the boundaries of a range with
  \<open>end > start\<close>.\<close>

definition in_open_range :: "line_range list \<Rightarrow> int \<Rightarrow> bool" where
  "in_open_range rs i = list_ex (\<lambda>r. r_end r > r_start r \<and> r_start r < i \<and> i < r_end r) rs"

definition line_hidden :: "line_range list \<Rightarrow> int set \<Rightarrow> int \<Rightarrow> bool" where
  "line_hidden rs keep i = (in_open_range rs i \<and> i \<notin> keep)"

text \<open>
  The rendering of a file whose lines carry a flag "hidden": a visible line is shown as it
  is; a hidden line that begins a run is replaced by one placeholder with that line's own
  indentation, and the rest of the run (\<open>dropWhile fst\<close>) is dropped.
\<close>

function render_runs :: "(bool \<times> string) list \<Rightarrow> string list" where
  "render_runs [] = []"
| "render_runs ((False, l) # rest) = l # render_runs rest"
| "render_runs ((True, l) # rest) =
     (indent_of l @ hidden_placeholder) # render_runs (dropWhile fst rest)"
  by pat_completeness auto
termination
  by (relation "measure length") (auto simp: length_dropWhile_le less_Suc_eq_le)

definition line_flags :: "int set \<Rightarrow> bool list \<Rightarrow> (nat \<times> string) list \<Rightarrow> (bool \<times> string) list" where
  "line_flags keep fl xs = map (\<lambda>(i, l). (\<not> should_keep (fl ! i) (int i + 1) keep, l)) xs"

text \<open>Line \<open>i\<close> (1-based) is the start line of a range with \<open>end > start\<close>.\<close>

definition starts_range :: "line_range list \<Rightarrow> int \<Rightarrow> bool" where
  "starts_range rs i = list_ex (\<lambda>r. r_start r = i \<and> r_end r > r_start r) rs"

definition indent_after :: "string list \<Rightarrow> nat \<Rightarrow> string" where
  "indent_after lines i = (if i + 1 < length lines then indent_of (lines ! (i + 1)) else [])"

text \<open>What the skeleton renderer emits for the line of 0-based index \<open>i\<close>: nothing when
  the line is suppressed, else the line, followed by a placeholder when the line starts a
  range.\<close>

definition skeleton_emit :: "string list \<Rightarrow> line_range list \<Rightarrow> nat \<Rightarrow> string list" where
  "skeleton_emit lines rs i =
     (if in_open_range rs (int i + 1) then []
      else lines ! i #
        (if starts_range rs (int i + 1) then [indent_after lines i @ skeleton_placeholder] else []))"

text \<open>A line of query output the slicer passes over: it is not in brackets, or it is and
  \<open>json.loads\<close> rejects it or decodes it to something that is not a list.\<close>

definition skippable :: "pylib \<Rightarrow> string \<Rightarrow> bool" where
  "skippable lib line =
     (if bracketed (strip line) then
        (case json_loads lib (strip line) of
           Inl e \<Rightarrow> e = JSONDecodeError
         | Inr (JList items) \<Rightarrow> False
         | Inr other \<Rightarrow> True)
      else True)"


text \<open>Concrete inputs.\<close>

definition rng :: "int \<Rightarrow> int \<Rightarrow> line_range" where
  "rng s e = \<lparr>r_start = s, r_end = e\<rparr>"

definition src5 :: string where
  "src5 = ''a'' @ [LF] @ ''  b'' @ [LF] @ ''c'' @ [LF] @ ''d'' @ [LF] @ ''e''"

text \<open>Concrete inputs for the slicer: an artifact of three lines whose buggy line is the
  second, and a query engine that answers line 1 for the data slice and line 3 for the
  control slice.\<close>

definition art0 :: artifact where
  "art0 = \<lparr>project_name = ''Lang'', bug_id = ''1'', file_path = ''A.java'', method_name = ''f'',
           buggy_line_no = 2, source_code = ''a'' @ [LF] @ ''b'' @ [LF] @ ''c'',
           language = ''java''\<rparr>"

definition slicer0 :: slicer where
  "slicer0 = \<lparr>ddg_script_path = ''ddg.sc'', cdg_script_path = ''cdg.sc''\<rparr>"

definition joern0 :: joern where
  "joern0 cpg_path script_path params =
     (if script_path = ''ddg.sc'' then Inr ''[1]''
      else if script_path = ''cdg.sc'' then Inr ''[3]''
      else Inr ''[]'')"

definition params0 :: query_params where
  "params0 = \<lparr>filename = ''A.java'', lineNumber = Some 2, methodName = Some ''f''\<rparr>"

text \<open>An unquoted line of noise, a list with a \<open>null\<close>, and a last line in brackets that
  is not JSON.\<close>

definition raw_ok :: string where
  "raw_ok = ''noise'' @ [LF] @ ''[3, null, 5]'' @ [LF] @ ''[oops]''"

text \<open>A list whose second entry is the string \<open>x\<close>.\<close>

definition raw_mixed :: string where
  "raw_mixed = ''[1, '' @ [CHR 0x22] @ ''x'' @ [CHR 0x22] @ '', 3]''"

text \<open>Output without a line that decodes: noise, and a line in brackets that is not JSON.\<close>

definition raw_noise :: string where
  "raw_noise = ''noise'' @ [LF] @ ''[oops]''"

text \<open>An artifact of five lines whose buggy line is the third, and a query engine that
  finds no dependency and answers one structural range, from line 1 to line 5.\<close>

definition art1 :: artifact where
  "art1 = \<lparr>project_name = ''Lang'', bug_id = ''2'', file_path = ''B.java'', method_name = ''g'',
           buggy_line_no = 3,
           source_code = ''a'' @ [LF] @ ''b'' @ [LF] @ ''c'' @ [LF] @ ''d'' @ [LF] @ ''e'',
           language = ''java''\<rparr>"

definition ranges_text :: string where
  "ranges_text =
     ''[{'' @ [CHR 0x22] @ ''start'' @ [CHR 0x22] @ '': 1, '' @
     [CHR 0x22] @ ''end'' @ [CHR 0x22] @ '': 5}]''"

definition joern1 :: joern where
  "joern1 cpg_path script_path params =
     (if script_path = ''ast.sc'' then Inr ranges_text else Inr ''[]'')"

text \<open>
  Concrete inputs for the workflow.  The completion service answers a fenced code block;
  the tests pass on the file content \<open>fixed\<close> only.  \<open>fs_fresh\<close> holds the artifact's file
  and no backup; \<open>fs_stale\<close> also holds a backup with another content.
\<close>

definition fenced_reply :: string where
  "fenced_reply = ''```java'' @ [LF] @ ''fixed'' @ [LF] @ ''```''"

definition failed_result :: test_result where
  "failed_result =
     \<lparr>passed = False, error_message = Some ''1 failure'', failed_test_name = Some ''T::t''\<rparr>"

definition passed_result :: test_result where
  "passed_result = \<lparr>passed = True, error_message = None, failed_test_name = None\<rparr>"

definition collab0 :: collaborators where
  "collab0 =
     \<lparr>library = demo_lib,
      execute_query_script = joern0,
      scripts = slicer0,
      skeleton_script = ''ast.sc'',
      generate_cpg = (\<lambda>art. Inr ''cpg.bin''),
      provision_container = None,
      construct_prompt = (\<lambda>session round_num last. Inr ''prompt''),
      generate_completion = (\<lambda>round_num prompt. Inr fenced_reply),
      llm_model_name = ''model'',
      run_tests = (\<lambda>art fs.
         Inr (if files fs (file_path art) = Some ''fixed'' then passed_result else failed_result)),
      compute_diff = (\<lambda>original modified label. []),
      describe = (\<lambda>e. [])\<rparr>"

definition fs_fresh :: file_system where
  "fs_fresh = \<lparr>files = [''A.java'' \<mapsto> source_code art0], locked = {}\<rparr>"



section \<open>Evaluation rules\<close>

lemmas str_eval = splitlines_def LF_def CR_def is_linebreak_def isspace_def lstrip_def indent_of_def
  hidden_placeholder_def skeleton_placeholder_def

lemmas stitch_eval = stitch_code_def stitch_lines_def getitem_def setitem_def norm_index_def should_keep_def
  py_range_def upto.simps enumerate_eq_zip rng_def

lemmas skeleton_eval = create_skeleton_def skeleton_lines_def py_range_def upto.simps
  enumerate_eq_zip rng_def


section \<open>The stitcher and the skeleton renderer: auxiliary facts\<close>

lemma mark_lines_ok:
  "length fl = n \<Longrightarrow>
   \<exists>fl'. mark_lines n js fl = Inr fl' \<and> length fl' = n \<and>
         (\<forall>k<n. fl' ! k = (fl ! k \<or> int k + 1 \<in> set js))"
proof (induction js arbitrary: fl)
  case Nil
  then show ?case by simp
next
  case (Cons j js)
  show ?case
  proof (cases "0 \<le> j - 1 \<and> j - 1 < int n")
    case True
    then have s: "setitem fl (j - 1) True = Inr (fl[nat (j - 1) := True])"
      using Cons.prems by (simp add: setitem_def norm_index_def)
    have len: "length (fl[nat (j - 1) := True]) = n" using Cons.prems by simp
    from Cons.IH[OF len] obtain fl' where
      h: "mark_lines n js (fl[nat (j - 1) := True]) = Inr fl'" "length fl' = n"
         "\<forall>k<n. fl' ! k = ((fl[nat (j - 1) := True]) ! k \<or> int k + 1 \<in> set js)"
      by blast
    have "\<forall>k<n. fl' ! k = (fl ! k \<or> int k + 1 \<in> set (j # js))"
    proof (intro allI impI)
      fix k assume k: "k < n"
      have "(fl[nat (j - 1) := True]) ! k = (fl ! k \<or> int k + 1 = j)"
        using k True Cons.prems by (auto simp: nth_list_update)
      then show "fl' ! k = (fl ! k \<or> int k + 1 \<in> set (j # js))"
        using h(3) k by auto
    qed
    then show ?thesis using True s h by simp
  next
    case False
    from Cons.IH[OF Cons.prems] obtain fl' where
      h: "mark_lines n js fl = Inr fl'" "length fl' = n"
         "\<forall>k<n. fl' ! k = (fl ! k \<or> int k + 1 \<in> set js)"
      by blast
    have "\<forall>k<n. fl' ! k = (fl ! k \<or> int k + 1 \<in> set (j # js))"
      using h(3) False by auto
    then show ?thesis using False h by auto
  qed
qed

lemma set_py_range: "set (py_range a b) = {i. a \<le> i \<and> i < b}"
  by (auto simp: py_range_def)

lemma mark_ranges_ok:
  "length fl = n \<Longrightarrow>
   \<exists>fl'. mark_ranges n rs fl = Inr fl' \<and> length fl' = n \<and>
         (\<forall>k<n. fl' ! k = (fl ! k \<or> in_open_range rs (int k + 1)))"
proof (induction rs arbitrary: fl)
  case Nil
  then show ?case by (simp add: in_open_range_def)
next
  case (Cons r rs)
  show ?case
  proof (cases "r_end r > r_start r")
    case True
    from mark_lines_ok[OF Cons.prems, of "py_range (r_start r + 1) (r_end r)"] obtain f1 where
      a: "mark_lines n (py_range (r_start r + 1) (r_end r)) fl = Inr f1" "length f1 = n"
         "\<forall>k<n. f1 ! k = (fl ! k \<or> int k + 1 \<in> set (py_range (r_start r + 1) (r_end r)))"
      by blast
    from Cons.IH[OF a(2)] obtain f2 where
      b: "mark_ranges n rs f1 = Inr f2" "length f2 = n"
         "\<forall>k<n. f2 ! k = (f1 ! k \<or> in_open_range rs (int k + 1))"
      by blast
    have "\<forall>k<n. f2 ! k = (fl ! k \<or> in_open_range (r # rs) (int k + 1))"
      using a(3) b(3) True by (auto simp: set_py_range in_open_range_def)
    then show ?thesis using True a b by simp
  next
    case False
    from Cons.IH[OF Cons.prems] obtain f2 where
      b: "mark_ranges n rs fl = Inr f2" "length f2 = n"
         "\<forall>k<n. f2 ! k = (fl ! k \<or> in_open_range rs (int k + 1))"
      by blast
    have "\<forall>k<n. f2 ! k = (fl ! k \<or> in_open_range (r # rs) (int k + 1))"
      using b(3) False by (auto simp: in_open_range_def)
    then show ?thesis using False b by simp
  qed
qed

lemma stitch_loop_render:
  "\<forall>(i, l) \<in> set xs. i < length fl \<Longrightarrow>
   stitch_loop keep fl xs acc gap =
     Inr (acc @ render_runs (if gap then dropWhile fst (line_flags keep fl xs) else line_flags keep fl xs))"
proof (induction xs arbitrary: acc gap)
  case Nil
  then show ?case by (simp add: line_flags_def)
next
  case (Cons x xs)
  obtain i l where x: "x = (i, l)" by (cases x)
  have i: "i < length fl" using Cons.prems x by auto
  have g: "getitem fl (int i) = Inr (fl ! i)" using i by (simp add: getitem_def norm_index_def)
  have rest: "\<forall>(i, l) \<in> set xs. i < length fl" using Cons.prems by auto
  note IH = Cons.IH[OF rest]
  show ?case
  proof (cases "should_keep (fl ! i) (int i + 1) keep")
    case True
    then show ?thesis using x g IH[of "acc @ [l]" False]
      by (simp add: line_flags_def)
  next
    case False
    show ?thesis
    proof (cases gap)
      case True
      then show ?thesis using x g False IH[of acc True]
        by (simp add: line_flags_def)
    next
      case nogap: False
      then show ?thesis using x g False IH[of "acc @ [indent_of l @ hidden_placeholder]" True]
        by (simp add: line_flags_def)
    qed
  qed
qed

lemma not_should_keep: "(\<not> should_keep s i keep) = (s \<and> i \<notin> keep)"
  by (simp add: should_keep_def)

lemma enumerate_bound: "\<forall>(i, l) \<in> set (enumerate 0 xs). i < length xs"
  by (auto simp: in_set_enumerate_eq)

lemma stitch_lines_render:
  "stitch_lines lines keep rs =
     Inr (render_runs (map (\<lambda>(i, l). (line_hidden rs keep (int i + 1), l)) (enumerate 0 lines)))"
proof -
  let ?n = "length lines"
  from mark_ranges_ok[of "replicate ?n False" ?n rs] obtain fl where
    fl: "mark_ranges ?n rs (replicate ?n False) = Inr fl" "length fl = ?n"
        "\<forall>k<?n. fl ! k = (replicate ?n False ! k \<or> in_open_range rs (int k + 1))"
    by auto
  have b: "\<forall>(i, l) \<in> set (enumerate 0 lines). i < length fl"
    using enumerate_bound[of lines] fl(2) by simp
  have "line_flags keep fl (enumerate 0 lines) =
        map (\<lambda>(i, l). (line_hidden rs keep (int i + 1), l)) (enumerate 0 lines)"
    unfolding line_flags_def
    using fl(3) by (auto simp: in_set_enumerate_eq not_should_keep line_hidden_def)
  then show ?thesis
    using fl(1) stitch_loop_render[OF b, of keep "[]" False]
    by (simp add: stitch_lines_def)
qed

lemma render_runs_visible: "\<forall>x \<in> set xs. \<not> fst x \<Longrightarrow> render_runs xs = map snd xs"
  by (induction xs rule: render_runs.induct) auto

lemma splitlines_from_Nil_iff: "splitlines_from cur s = [] \<longleftrightarrow> cur = [] \<and> s = []"
  by (induction cur s rule: splitlines_from.induct) (auto split: list.splits)

lemma str_join_Cons: "ys \<noteq> [] \<Longrightarrow> str_join sep (x # ys) = x @ sep @ str_join sep ys"
  by (cases ys) auto

lemma join_splitlines_from:
  "\<forall>c \<in> set s. is_linebreak c \<longrightarrow> c = LF \<Longrightarrow> s = [] \<or> last s \<noteq> LF \<Longrightarrow>
   str_join [LF] (splitlines_from cur s) = rev cur @ s"
proof (induction s arbitrary: cur)
  case Nil
  then show ?case by simp
next
  case (Cons c cs)
  have cs: "\<forall>c \<in> set cs. is_linebreak c \<longrightarrow> c = LF" "cs = [] \<or> last cs \<noteq> LF"
    using Cons.prems by (auto split: if_splits)
  have crlb: "is_linebreak CR" by (simp add: is_linebreak_def CR_def)
  have crlf: "CR \<noteq> LF" by (simp add: CR_def LF_def)
  have notcr: "c \<noteq> CR" using Cons.prems(1) crlb crlf by auto
  show ?case
  proof (cases "is_linebreak c")
    case True
    then have c: "c = LF" using Cons.prems(1) by simp
    then have ne: "cs \<noteq> []" using Cons.prems(2) by auto
    then have "splitlines_from [] cs \<noteq> []" by (simp add: splitlines_from_Nil_iff)
    then show ?thesis
      using True notcr c Cons.IH[OF cs, of "[]"] by (simp add: str_join_Cons)
  next
    case False
    then show ?thesis using notcr Cons.IH[OF cs, of "c # cur"] by simp
  qed
qed

lemma skeleton_loop_concat:
  "skeleton_loop lines rs sp xs acc =
     acc @ concat (map (\<lambda>(i, l). if int i \<in> sp then [] else l # placeholder_after lines i rs) xs)"
  by (induction xs arbitrary: acc) auto

lemma fold_insert_pred: "fold (\<lambda>i s. insert (i - 1) s) js (s::int set) = s \<union> {k. k + 1 \<in> set js}"
  by (induction js arbitrary: s) auto

lemma suppress_ranges_eq: "suppress_ranges rs s = s \<union> {k. in_open_range rs (k + 1)}"
proof (induction rs arbitrary: s)
  case Nil
  then show ?case by (simp add: in_open_range_def)
next
  case (Cons r rs)
  show ?case using Cons.IH
    by (auto simp: fold_insert_pred set_py_range in_open_range_def)
qed

lemma placeholder_after_eq:
  "placeholder_after lines i rs =
     (if starts_range rs (int i + 1) then [indent_after lines i @ skeleton_placeholder] else [])"
  by (induction rs) (auto simp: starts_range_def indent_after_def)

lemma skeleton_lines_concat:
  "skeleton_lines lines rs = concat (map (skeleton_emit lines rs) [0..<length lines])"
proof -
  have "map (\<lambda>(i, l). if int i \<in> suppress_ranges rs {} then [] else l # placeholder_after lines i rs) (enumerate 0 lines)
      = map (skeleton_emit lines rs) [0..<length lines]"
    by (rule nth_equalityI)
       (auto simp: nth_enumerate_eq skeleton_emit_def suppress_ranges_eq placeholder_after_eq)
  then show ?thesis
    by (simp add: skeleton_lines_def skeleton_loop_concat)
qed

lemma in_set_dropWhile_not: "x \<in> set xs \<Longrightarrow> \<not> P x \<Longrightarrow> x \<in> set (dropWhile P xs)"
  by (induction xs) auto

lemma render_runs_shows_visible: "(False, l) \<in> set xs \<Longrightarrow> l \<in> set (render_runs xs)"
proof (induction xs rule: render_runs.induct)
  case 1
  then show ?case by simp
next
  case (2 l' rest)
  then show ?case by auto
next
  case (3 l' rest)
  then have "(False, l) \<in> set rest" by auto
  then have "(False, l) \<in> set (dropWhile fst rest)" by (rule in_set_dropWhile_not) simp
  then show ?case using 3 by simp
qed


section \<open>Properties of the stitcher and the skeleton renderer\<close>

text \<open>
  Claim C4, as amended.  With an empty range list the skeleton renderer returns the source
  text as it is.  The mixed stitcher returns the lines of the source (as \<open>splitlines\<close>
  cuts them) joined by LF, whatever the must-keep set; this is the source text itself when
  LF is its only line break and it does not end with one.
\<close>

theorem empty_ranges_verbatim:
  "create_skeleton src [] = src \<and>
   stitch_code src keep [] = Inr (str_join [LF] (splitlines src)) \<and>
   ((\<forall>c \<in> set src. is_linebreak c \<longrightarrow> c = LF) \<and> (src = [] \<or> last src \<noteq> LF)
      \<longrightarrow> stitch_code src keep [] = Inr src)"
proof -
  have "render_runs (map (\<lambda>(i, l). (line_hidden [] keep (int i + 1), l)) (enumerate 0 (splitlines src)))
        = map snd (map (\<lambda>(i, l). (line_hidden [] keep (int i + 1), l)) (enumerate 0 (splitlines src)))"
    by (rule render_runs_visible) (auto simp: line_hidden_def in_open_range_def)
  also have "\<dots> = splitlines src"
    by (rule nth_equalityI) (auto simp: nth_enumerate_eq)
  finally have a: "stitch_code src keep [] = Inr (str_join [LF] (splitlines src))"
    by (simp add: stitch_code_def stitch_lines_render)
  have b: "str_join [LF] (splitlines src) = src"
    if "\<forall>c \<in> set src. is_linebreak c \<longrightarrow> c = LF" "src = [] \<or> last src \<noteq> LF"
    using join_splitlines_from[OF that, of "[]"] by (simp add: splitlines_def)
  show ?thesis using a b by (simp add: create_skeleton_def)
qed

theorem empty_ranges_verbatim_witness:
  "create_skeleton src5 [] = src5 \<and> stitch_code src5 {3} [] = Inr src5"
  using empty_ranges_verbatim[of src5 "{3}"]
  by (simp add: src5_def str_eval)

theorem stitch_trailing_newline_counterexample:
  "stitch_code (''a'' @ [LF]) {} [] = Inr ''a'' \<and>
   stitch_code (''a'' @ [LF]) {} [] \<noteq> Inr (''a'' @ [LF])"
  by (simp add: stitch_code_def stitch_lines_def getitem_def norm_index_def should_keep_def str_eval enumerate_eq_zip)

text \<open>
  Claim C5, as amended.  The mixed stitcher shows every visible line as it is and replaces
  each maximal run of hidden lines by exactly one placeholder, which carries the
  indentation of the first hidden line of the run (\<open>render_runs\<close>).  The skeleton
  renderer drops every suppressed line and puts one placeholder after each visible line
  that starts a range with \<open>end > start\<close>, with the indentation of the source line that
  follows it (\<open>skeleton_emit\<close>).
\<close>

theorem placeholder_per_run:
  "stitch_code src keep rs =
     Inr (str_join [LF] (render_runs
       (map (\<lambda>(i, l). (line_hidden rs keep (int i + 1), l)) (enumerate 0 (splitlines src))))) \<and>
   skeleton_lines lines rs = concat (map (skeleton_emit lines rs) [0..<length lines])"
  by (simp add: stitch_code_def stitch_lines_render skeleton_lines_concat)

theorem placeholder_per_run_witness:
  "stitch_code src5 {4} [rng 1 5] =
     Inr (str_join [LF] [''a'', ''  # ... (irrelevant code hidden)'', ''d'', ''e'']) \<and>
   skeleton_lines (splitlines src5) [rng 1 5] = [''a'', ''  # ... existing code ...'', ''e'']"
  using placeholder_per_run[of src5 "{4}" "[rng 1 5]" "splitlines src5"]
  by (simp add: src5_def str_eval line_hidden_def in_open_range_def rng_def enumerate_eq_zip
      skeleton_emit_def starts_range_def indent_after_def upt_rec)

theorem placeholder_indent_counterexample:
  "stitch_code (''a'' @ [LF] @ ''  b'' @ [LF] @ ''c'') {} [rng 1 3] =
     Inr (''a'' @ [LF] @ ''  '' @ hidden_placeholder @ [LF] @ ''c'') \<and>
   stitch_code (''a'' @ [LF] @ ''  b'' @ [LF] @ ''c'') {} [rng 1 3] \<noteq>
     Inr (''a'' @ [LF] @ indent_of ''c'' @ hidden_placeholder @ [LF] @ ''c'')"
  by (simp add: stitch_eval str_eval)

text \<open>
  Claim C6, as amended.  The stitcher never fails, whatever the line numbers of the ranges,
  and a line \<open>i\<close> of the file is hidden exactly when it is not in the must-keep set and some
  range with \<open>end > start\<close> has \<open>start < i < end\<close>: this is so of the flags the two loops
  compute, and the rendering is the file with exactly those lines collapsed, so that every
  other line is shown as it is.  A range with \<open>end \<le> start\<close> hides nothing and no range
  hides its own two boundary lines; a boundary line is hidden only when it lies strictly
  inside another range.
\<close>

theorem hidden_iff:
  "(\<exists>flags. mark_ranges (length lines) rs (replicate (length lines) False) = Inr flags \<and>
      length flags = length lines \<and>
      (\<forall>i. 1 \<le> i \<and> i \<le> int (length lines) \<longrightarrow>
         (\<not> should_keep (flags ! nat (i - 1)) i keep) =
         ((\<exists>r \<in> set rs. r_end r > r_start r \<and> r_start r < i \<and> i < r_end r) \<and> i \<notin> keep))) \<and>
   stitch_lines lines keep rs =
     Inr (render_runs
            (map (\<lambda>(k, l).
                    ((\<exists>r \<in> set rs. r_end r > r_start r \<and> r_start r < int k + 1 \<and> int k + 1 < r_end r)
                       \<and> int k + 1 \<notin> keep, l))
               (enumerate 0 lines))) \<and>
   stitch_code src keep rs =
     Inr (str_join [LF]
            (render_runs
               (map (\<lambda>(k, l).
                       ((\<exists>r \<in> set rs. r_end r > r_start r \<and> r_start r < int k + 1 \<and> int k + 1 < r_end r)
                          \<and> int k + 1 \<notin> keep, l))
                  (enumerate 0 (splitlines src))))) \<and>
   (\<forall>i. 1 \<le> i \<and> i \<le> int (length lines) \<and>
        \<not> ((\<exists>r \<in> set rs. r_end r > r_start r \<and> r_start r < i \<and> i < r_end r) \<and> i \<notin> keep) \<longrightarrow>
        (\<exists>out. stitch_lines lines keep rs = Inr out \<and> lines ! nat (i - 1) \<in> set out))"
proof -
  let ?n = "length lines"
  let ?hid = "\<lambda>i. (\<exists>r \<in> set rs. r_end r > r_start r \<and> r_start r < i \<and> i < r_end r) \<and> i \<notin> keep"
  have hid: "line_hidden rs keep i = ?hid i" for i
    by (simp add: line_hidden_def in_open_range_def list_ex_iff)
  from mark_ranges_ok[of "replicate ?n False" ?n rs] obtain fl where
    fl: "mark_ranges ?n rs (replicate ?n False) = Inr fl" "length fl = ?n"
        "\<forall>k<?n. fl ! k = (replicate ?n False ! k \<or> in_open_range rs (int k + 1))"
    by auto
  have a: "(\<not> should_keep (fl ! nat (i - 1)) i keep) = ?hid i"
    if "1 \<le> i \<and> i \<le> int ?n" for i
  proof -
    have k: "nat (i - 1) < ?n" "int (nat (i - 1)) + 1 = i" using that by auto
    have "fl ! nat (i - 1) = in_open_range rs i" using fl(3) k by auto
    then show ?thesis by (simp add: not_should_keep in_open_range_def list_ex_iff)
  qed
  have m: "map (\<lambda>(k, l). (line_hidden rs keep (int k + 1), l)) xs =
           map (\<lambda>(k, l). (?hid (int k + 1), l)) xs" for xs :: "(nat \<times> string) list"
    by (simp add: hid)
  have b: "stitch_lines ls keep rs =
             Inr (render_runs (map (\<lambda>(k, l). (?hid (int k + 1), l)) (enumerate 0 ls)))" for ls
    using stitch_lines_render[of ls keep rs] unfolding m .
  have c: "stitch_code src keep rs =
             Inr (str_join [LF] (render_runs
               (map (\<lambda>(k, l). (?hid (int k + 1), l)) (enumerate 0 (splitlines src)))))"
    by (simp add: stitch_code_def b)
  have d: "\<exists>out. stitch_lines lines keep rs = Inr out \<and> lines ! nat (i - 1) \<in> set out"
    if "1 \<le> i \<and> i \<le> int ?n \<and> \<not> ?hid i" for i
  proof -
    have k: "nat (i - 1) < ?n" "int (nat (i - 1)) + 1 = i" using that by auto
    have "(nat (i - 1), lines ! nat (i - 1)) \<in> set (enumerate 0 lines)"
      using k(1) by (simp add: in_set_enumerate_eq)
    then have "(?hid (int (nat (i - 1)) + 1), lines ! nat (i - 1))
                 \<in> set (map (\<lambda>(k, l). (?hid (int k + 1), l)) (enumerate 0 lines))"
      by (force simp: image_iff)
    then have "(False, lines ! nat (i - 1))
                 \<in> set (map (\<lambda>(k, l). (?hid (int k + 1), l)) (enumerate 0 lines))"
      using that unfolding k(2) by simp
    then show ?thesis using b[of lines] render_runs_shows_visible by blast
  qed
  show ?thesis using fl(1,2) a b[of lines] c d by blast
qed

theorem hidden_iff_witness:
  "(\<exists>flags. mark_ranges 5 [rng 1 5] (replicate 5 False) = Inr flags \<and> length flags = 5 \<and>
      \<not> should_keep (flags ! 2) 3 {4} \<and> should_keep (flags ! 3) 4 {4} \<and>
      should_keep (flags ! 0) 1 {4} \<and> should_keep (flags ! 4) 5 {4}) \<and>
   stitch_code src5 {4} [rng 1 5] =
     Inr (str_join [LF] [''a'', ''  # ... (irrelevant code hidden)'', ''d'', ''e'']) \<and>
   (\<exists>out. stitch_lines (splitlines src5) {4} [rng 1 5] = Inr out \<and> ''d'' \<in> set out)"
proof -
  let ?ls = "[''a'', ''  b'', ''c'', ''d'', ''e'']"
  have l: "splitlines src5 = ?ls"
    by (simp add: src5_def str_eval)
  note h = hidden_iff[of ?ls "[rng 1 5]" "{4}" src5]
  from h[THEN conjunct1] obtain flags where
    f: "mark_ranges (length ?ls) [rng 1 5] (replicate (length ?ls) False) = Inr flags"
       "length flags = length ?ls"
       "\<forall>i. 1 \<le> i \<and> i \<le> int (length ?ls) \<longrightarrow>
           (\<not> should_keep (flags ! nat (i - 1)) i {4}) =
           ((\<exists>r \<in> set [rng 1 5]. r_end r > r_start r \<and> r_start r < i \<and> i < r_end r) \<and> i \<notin> {4})"
    by blast
  have len: "length ?ls = 5" by simp
  have f1: "mark_ranges 5 [rng 1 5] (replicate 5 False) = Inr flags" "length flags = 5"
    using f(1,2) by (simp_all only: len)
  have "\<not> should_keep (flags ! 2) 3 {4}" using f(3)[rule_format, of 3] by (simp add: rng_def)
  moreover have "should_keep (flags ! 3) 4 {4}" using f(3)[rule_format, of 4] by (simp add: rng_def)
  moreover have "should_keep (flags ! 0) 1 {4}" using f(3)[rule_format, of 1] by (simp add: rng_def)
  moreover have "should_keep (flags ! 4) 5 {4}" using f(3)[rule_format, of 5] by (simp add: rng_def)
  ultimately have A: "\<exists>flags. mark_ranges 5 [rng 1 5] (replicate 5 False) = Inr flags \<and> length flags = 5 \<and>
      \<not> should_keep (flags ! 2) 3 {4} \<and> should_keep (flags ! 3) 4 {4} \<and>
      should_keep (flags ! 0) 1 {4} \<and> should_keep (flags ! 4) 5 {4}"
    using f1 by blast
  have B: "stitch_code src5 {4} [rng 1 5] =
     Inr (str_join [LF] [''a'', ''  # ... (irrelevant code hidden)'', ''d'', ''e''])"
    using h[THEN conjunct2, THEN conjunct2, THEN conjunct1, unfolded l]
    by (simp add: rng_def enumerate_eq_zip str_eval upt_rec)
  have "\<exists>out. stitch_lines ?ls {4} [rng 1 5] = Inr out \<and> ?ls ! nat (4 - 1) \<in> set out"
    using h[THEN conjunct2, THEN conjunct2, THEN conjunct2, rule_format, of 4]
    by (simp add: rng_def)
  then have C: "\<exists>out. stitch_lines (splitlines src5) {4} [rng 1 5] = Inr out \<and> ''d'' \<in> set out"
    unfolding l by (simp add: eval_nat_numeral)
  show ?thesis using A B C by blast
qed

theorem nested_boundary_hidden_counterexample:
  "stitch_code src5 {} [rng 1 5, rng 2 4] =
     Inr (''a'' @ [LF] @ ''  '' @ hidden_placeholder @ [LF] @ ''e'')"
  by (simp add: src5_def stitch_eval str_eval)

text \<open>
  Claim C10, as amended.  A range with \<open>end = start + 1\<close> suppresses no line, and when its
  start line lies inside the file and is not itself suppressed by another range, the
  skeleton renderer puts a placeholder right after that line.
\<close>

theorem unit_range_placeholder:
  assumes "r \<in> set rs" "r_end r = r_start r + 1"
    and "1 \<le> r_start r" "r_start r \<le> int (length lines)"
    and "\<not> in_open_range rs (r_start r)"
  shows "suppress_ranges [r] {} = {} \<and>
         skeleton_lines lines rs =
           concat (map (skeleton_emit lines rs) [0..<nat (r_start r - 1)]) @
           [lines ! nat (r_start r - 1),
            indent_after lines (nat (r_start r - 1)) @ skeleton_placeholder] @
           concat (map (skeleton_emit lines rs) [Suc (nat (r_start r - 1))..<length lines])"
proof -
  let ?k = "nat (r_start r - 1)"
  have k: "?k < length lines" "int ?k + 1 = r_start r" using assms(3,4) by auto
  have "starts_range rs (r_start r)"
    using assms(1,2) by (auto simp: starts_range_def list_ex_iff)
  then have e: "skeleton_emit lines rs ?k = [lines ! ?k, indent_after lines ?k @ skeleton_placeholder]"
    using assms(5) k(2) by (simp add: skeleton_emit_def)
  have "[0..<length lines] = [0..<?k] @ ?k # [Suc ?k..<length lines]"
    using k(1) by (metis le0 upt_add_eq_append upt_conv_Cons le_add_diff_inverse less_imp_le_nat)
  then have "concat (map (skeleton_emit lines rs) [0..<length lines]) =
             concat (map (skeleton_emit lines rs) [0..<?k]) @ skeleton_emit lines rs ?k @
             concat (map (skeleton_emit lines rs) [Suc ?k..<length lines])"
    by (metis concat.simps(2) concat_append list.simps(9) map_append)
  moreover have "suppress_ranges [r] {} = {}"
    using assms(2) by (auto simp: suppress_ranges_eq in_open_range_def)
  ultimately show ?thesis using e by (simp add: skeleton_lines_concat)
qed

theorem unit_range_placeholder_witness:
  "suppress_ranges [rng 2 3] {} = {} \<and>
   skeleton_lines (splitlines src5) [rng 2 3] =
     [''a'', ''  b'', ''# ... existing code ...'', ''c'', ''d'', ''e'']"
proof -
  have l: "splitlines src5 = [''a'', ''  b'', ''c'', ''d'', ''e'']"
    by (simp add: src5_def str_eval)
  show ?thesis
    using unit_range_placeholder[of "rng 2 3" "[rng 2 3]" "splitlines src5"]
    unfolding l
    by (simp add: rng_def in_open_range_def skeleton_emit_def starts_range_def
        indent_after_def upt_rec str_eval)
qed

theorem unit_range_hidden_start_counterexample:
  "create_skeleton src5 [rng 1 5, rng 2 3] =
     ''a'' @ [LF] @ ''  '' @ skeleton_placeholder @ [LF] @ ''e''"
  by (simp add: src5_def skeleton_eval str_eval)


section \<open>Properties of the retry wrapper\<close>

declare retry_loop.simps [simp del]

text \<open>
  Claim C8.  When the wrapped call raises an HTTP error whose status code lies in
  \<open>[400, 500)\<close> and is not 429, the wrapper raises that very error at once: the wrapped
  function has been invoked exactly once and nothing was slept.  (The wrapper makes a first
  attempt whenever \<open>max_retries\<close> is positive; the wrapped completion calls of
  \<open>client.py\<close> use 5, 5 and 3.)
\<close>

theorem client_error_not_retried:
  assumes "0 < max_retries"
    and "func 0 = Inl (HTTPError (Some status_code))"
    and "400 \<le> status_code" "status_code < 500" "status_code \<noteq> 429"
  shows "retry_with_backoff max_retries backoff_factor func =
           \<lparr>outcome = Inl (HTTPError (Some status_code)), invocations = 1, slept = []\<rparr>"
  using assms by (simp add: retry_with_backoff_def retry_loop.simps[of _ _ _ 0])

theorem client_error_not_retried_witness:
  "retry_with_backoff 5 2 (\<lambda>k. if k = 0 then Inl (HTTPError (Some 404)) else Inr ''late'') =
     \<lparr>outcome = Inl (HTTPError (Some 404)), invocations = 1, slept = []\<rparr>"
  using client_error_not_retried[of 5 "\<lambda>k. if k = 0 then Inl (HTTPError (Some 404)) else Inr ''late''" 404 2]
  by simp

text \<open>Without a positive \<open>max_retries\<close> the wrapper makes no attempt at all.\<close>

lemma no_attempt_without_retries:
  "max_retries \<le> 0 \<Longrightarrow>
   retry_with_backoff max_retries backoff_factor func =
     \<lparr>outcome = Inl TypeError, invocations = 0, slept = []\<rparr>"
  by (simp add: retry_with_backoff_def retry_loop.simps[of _ _ _ 0])


section \<open>Properties of the token manager\<close>

lemma unknown_model_limit: "get_model_limit ''my-model'' = 4096"
  by (simp add: get_model_limit_def MODEL_LIMITS_def lower_def lower_char_def)

lemma tm0_eval: "max_context_length tm0 = 4096" "encoder tm0 = char_tokenizer"
  by (simp_all add: tm0_def token_manager_init_def unknown_model_limit)

lemmas token_eval = count_tokens_def available_for_context_def safe_limit_def OUTPUT_RESERVE_def
  tm0_eval char_tokenizer_def truncation_notice_def LF_def


text \<open>
  Claim C1, as amended.  Let \<open>available_for_context\<close> be non-negative.  When the context
  has at most that many tokens, \<open>optimize_prompt\<close> returns it unchanged, so the result is
  within the budget.  When it has more, the result is the decoding of the first
  \<open>available_for_context\<close> tokens of the context (nothing when the budget is 0) followed
  by the truncation notice: the notice is appended after the cut and is not counted.
\<close>

theorem optimize_prompt_budget:
  assumes "0 \<le> available_for_context tm static_parts feedback_part"
  shows "(count_tokens tm dynamic_context \<le> available_for_context tm static_parts feedback_part \<longrightarrow>
            optimize_prompt tm static_parts dynamic_context feedback_part = dynamic_context \<and>
            count_tokens tm (optimize_prompt tm static_parts dynamic_context feedback_part)
              \<le> available_for_context tm static_parts feedback_part) \<and>
         (count_tokens tm dynamic_context > available_for_context tm static_parts feedback_part \<longrightarrow>
            optimize_prompt tm static_parts dynamic_context feedback_part =
              (if available_for_context tm static_parts feedback_part = 0 then []
               else decode (encoder tm)
                      (take (nat (available_for_context tm static_parts feedback_part))
                         (encode (encoder tm) dynamic_context)))
              @ truncation_notice)"
proof -
  let ?a = "available_for_context tm static_parts feedback_part"
  have o: "optimize_prompt tm static_parts dynamic_context feedback_part = fit_context tm dynamic_context ?a"
    using assms by (simp add: optimize_prompt_def Let_def)
  have "count_tokens tm dynamic_context \<le> int (length (encode (encoder tm) dynamic_context))"
    by (simp add: count_tokens_def)
  then have "truncate_text tm dynamic_context ?a False =
        (if ?a = 0 then [] else decode (encoder tm) (take (nat ?a) (encode (encoder tm) dynamic_context)))"
    if "count_tokens tm dynamic_context > ?a"
    using that assms by (auto simp: truncate_text_def)
  then show ?thesis unfolding o by (auto simp: fit_context_def)
qed

theorem optimize_prompt_budget_witness:
  "available_for_context tm0 [replicate 3070 CHR ''s''] [] = 2 \<and>
   optimize_prompt tm0 [replicate 3070 CHR ''s''] ''ab'' [] = ''ab'' \<and>
   optimize_prompt tm0 [replicate 3070 CHR ''s''] ''abc'' [] = ''ab'' @ truncation_notice"
  using optimize_prompt_budget[of tm0 "[replicate 3070 CHR ''s'']" "[]" "''ab''"]
    optimize_prompt_budget[of tm0 "[replicate 3070 CHR ''s'']" "[]" "''abc''"]
  by (simp add: token_eval)

theorem truncation_notice_over_budget_counterexample:
  "available_for_context tm0 [] [] = 3072 \<and>
   count_tokens tm0 (optimize_prompt tm0 [] (replicate 3073 CHR ''x'') []) = 3114 \<and>
   \<not> count_tokens tm0 (optimize_prompt tm0 [] (replicate 3073 CHR ''x'') [])
       \<le> available_for_context tm0 [] []"
  by (simp add: optimize_prompt_def fit_context_def truncate_text_def token_eval)

section \<open>Properties of the focused slicer\<close>

lemma scan_skip:
  "\<forall>l \<in> set pre. skippable lib l \<Longrightarrow>
   scan_list_lines lib (pre @ rest) = scan_list_lines lib rest"
  by (induction pre) (auto simp: skippable_def split: sum.splits json.splits if_splits)

lemma scan_all_skipped:
  "\<forall>l \<in> set ls. skippable lib l \<Longrightarrow> scan_list_lines lib ls = Inr {}"
  using scan_skip[of ls lib "[]"] by simp

lemma int_entries_ok:
  "\<forall>x \<in> set items. x = JNull \<or> (\<exists>n. py_int lib x = Inr n) \<Longrightarrow>
   \<exists>ns. int_entries lib items = Inr ns \<and>
        set ns = {n. \<exists>x \<in> set items. x \<noteq> JNull \<and> py_int lib x = Inr n}"
proof (induction items)
  case Nil
  then show ?case by simp
next
  case (Cons x xs)
  then obtain ns where ns: "int_entries lib xs = Inr ns"
    "set ns = {n. \<exists>x \<in> set xs. x \<noteq> JNull \<and> py_int lib x = Inr n}"
    by auto
  show ?case
  proof (cases "x = JNull")
    case True
    then show ?thesis using ns by auto
  next
    case False
    then obtain n where n: "py_int lib x = Inr n" using Cons.prems by auto
    then show ?thesis using False ns by auto
  qed
qed

lemma int_entries_fail:
  "\<exists>x \<in> set items. x \<noteq> JNull \<and> (\<exists>e. py_int lib x = Inl e) \<Longrightarrow>
   \<exists>e x. int_entries lib items = Inl e \<and> x \<in> set items \<and> py_int lib x = Inl e"
proof (induction items)
  case Nil
  then show ?case by simp
next
  case (Cons x xs)
  show ?case
  proof (cases "x \<noteq> JNull \<and> (\<exists>e. py_int lib x = Inl e)")
    case True
    then show ?thesis by auto
  next
    case False
    then have "\<exists>x \<in> set xs. x \<noteq> JNull \<and> (\<exists>e. py_int lib x = Inl e)"
      using Cons.prems by auto
    from Cons.IH[OF this] obtain e y where
      "int_entries lib xs = Inl e" "y \<in> set xs" "py_int lib y = Inl e" by blast
    then show ?thesis using False
      by (cases "py_int lib x") (auto split: sum.splits)
  qed
qed

lemma py_int_exception:
  "\<forall>s e. int_of_str lib s = Inl e \<longrightarrow> is_exception e \<Longrightarrow> py_int lib x = Inl e \<Longrightarrow> is_exception e"
  by (induction lib x rule: py_int.induct) (auto simp: is_exception_def)

lemma run_slicing_only_interrupt:
  "run_slicing_strategy lib q cpg script params = Inl e \<Longrightarrow> \<not> is_exception e"
  by (auto simp: run_slicing_strategy_def split: sum.splits if_splits)

lemma parse_at_first_bracketed:
  assumes "raw \<noteq> []" "rev (splitlines (strip raw)) = pre @ line # post"
    and "\<forall>l \<in> set pre. skippable lib l" "bracketed (strip line)"
  shows "parse_joern_list_output lib raw =
           (case json_loads lib (strip line) of
              Inl e \<Rightarrow> if e = JSONDecodeError then scan_list_lines lib post else Inl e
            | Inr (JList items) \<Rightarrow>
                (case int_entries lib items of Inl e \<Rightarrow> Inl e | Inr ns \<Rightarrow> Inr (set ns))
            | Inr other \<Rightarrow> scan_list_lines lib post)"
  using assms scan_skip[OF assms(3), of "line # post"]
  by (simp add: parse_joern_list_output_def)

lemmas json_eval = json_decode_def startswith_def endswith_def bracketed_def json_ws_def
  decode_number_def decode_string_def is_digit_def digits_value_def int_decimal_def demo_lib_def strip_def

lemma raw_ok_lines: "rev (splitlines (strip raw_ok)) = [''[oops]''] @ ''[3, null, 5]'' # [''noise'']"
  by (simp add: raw_ok_def strip_def str_eval)

lemma oops_line_skippable: "skippable demo_lib ''[oops]''"
  by (simp add: skippable_def json_eval str_eval)

lemma noise_line_skippable: "skippable demo_lib ''noise''"
  by (simp add: skippable_def json_eval str_eval)

lemma list_line_decoded:
  "json_loads demo_lib (strip ''[3, null, 5]'') = Inr (JList [JInt 3, JNull, JInt 5])"
  by (simp add: json_eval str_eval)

lemma mixed_line_decoded:
  "json_loads demo_lib (strip raw_mixed) = Inr (JList [JInt 1, JStr ''x'', JInt 3])"
  by (simp add: raw_mixed_def json_eval str_eval)

lemma int_of_x: "int_decimal ''x'' = Inl ValueError"
  by (simp add: json_eval str_eval)

lemma raw_mixed_lines: "rev (splitlines (strip raw_mixed)) = [] @ raw_mixed # []"
  by (simp add: raw_mixed_def strip_def str_eval)

lemma raw_noise_lines: "splitlines (strip raw_noise) = [''noise'', ''[oops]'']"
  by (simp add: raw_noise_def strip_def str_eval)

lemma demo_int_exception: "int_of_str demo_lib s = Inl e \<Longrightarrow> is_exception e"
  by (auto simp: demo_lib_def int_decimal_def is_exception_def Let_def split: if_splits)

text \<open>
  Claim C9, as amended.  \<open>_parse_joern_list_output\<close> scans the lines of the query output
  from the end and passes over every line that is not in brackets, that \<open>json.loads\<close>
  rejects with a \<open>JSONDecodeError\<close>, or that decodes to something other than a list.  An
  empty output, and an output none of whose lines decodes to a list, give the empty set.
  From the first line that decodes to a list, the \<open>null\<close> entries are dropped and every
  other entry goes through \<open>int\<close>: when all of them convert, the result is the set of the
  converted values; when one does not, \<open>_parse_joern_list_output\<close> raises and
  \<open>_run_slicing_strategy\<close> answers the empty set, the integer entries of that line
  included.  \<open>_run_slicing_strategy\<close> also answers the empty set when the query or the
  decoder raises another \<open>Exception\<close>, and it never passes an \<open>Exception\<close> on to its
  caller.
\<close>

theorem slicer_line_set:
  "(q cpg script params = Inr [] \<longrightarrow> run_slicing_strategy lib q cpg script params = Inr {}) \<and>
   (q cpg script params = Inr raw \<and> (\<forall>l \<in> set (splitlines (strip raw)). skippable lib l) \<longrightarrow>
      run_slicing_strategy lib q cpg script params = Inr {}) \<and>
   (q cpg script params = Inl e \<and> is_exception e \<longrightarrow>
      run_slicing_strategy lib q cpg script params = Inr {}) \<and>
   (q cpg script params = Inr raw \<and> raw \<noteq> [] \<and>
    rev (splitlines (strip raw)) = pre @ line # post \<and>
    (\<forall>l \<in> set pre. skippable lib l) \<and> bracketed (strip line) \<and>
    json_loads lib (strip line) = Inr (JList items) \<and>
    (\<forall>x \<in> set items. x = JNull \<or> (\<exists>n. py_int lib x = Inr n)) \<longrightarrow>
      run_slicing_strategy lib q cpg script params =
        Inr {n. \<exists>x \<in> set items. x \<noteq> JNull \<and> py_int lib x = Inr n}) \<and>
   (q cpg script params = Inr raw \<and> raw \<noteq> [] \<and>
    rev (splitlines (strip raw)) = pre @ line # post \<and>
    (\<forall>l \<in> set pre. skippable lib l) \<and> bracketed (strip line) \<and>
    json_loads lib (strip line) = Inr (JList items) \<and>
    (\<forall>s e'. int_of_str lib s = Inl e' \<longrightarrow> is_exception e') \<and>
    (\<exists>x \<in> set items. x \<noteq> JNull \<and> (\<exists>e'. py_int lib x = Inl e')) \<longrightarrow>
      run_slicing_strategy lib q cpg script params = Inr {} \<and>
      (\<exists>e'. parse_joern_list_output lib raw = Inl e')) \<and>
   (q cpg script params = Inr raw \<and> raw \<noteq> [] \<and>
    rev (splitlines (strip raw)) = pre @ line # post \<and>
    (\<forall>l \<in> set pre. skippable lib l) \<and> bracketed (strip line) \<and>
    json_loads lib (strip line) = Inl e \<and> e \<noteq> JSONDecodeError \<and> is_exception e \<longrightarrow>
      run_slicing_strategy lib q cpg script params = Inr {}) \<and>
   (\<forall>e'. run_slicing_strategy lib q cpg script params = Inl e' \<longrightarrow> \<not> is_exception e')"
proof -
  have c1: "run_slicing_strategy lib q cpg script params = Inr {}"
    if "q cpg script params = Inr []"
    using that by (simp add: run_slicing_strategy_def parse_joern_list_output_def)
  have c2: "run_slicing_strategy lib q cpg script params = Inr {}"
    if "q cpg script params = Inr raw" "\<forall>l \<in> set (splitlines (strip raw)). skippable lib l"
  proof -
    have "\<forall>l \<in> set (rev (splitlines (strip raw))). skippable lib l" using that(2) by simp
    then have "scan_list_lines lib (rev (splitlines (strip raw))) = Inr {}"
      by (rule scan_all_skipped)
    then show ?thesis using that(1)
      by (simp add: run_slicing_strategy_def parse_joern_list_output_def)
  qed
  have c3: "run_slicing_strategy lib q cpg script params = Inr {}"
    if "q cpg script params = Inl e" "is_exception e"
    using that by (simp add: run_slicing_strategy_def)
  have c4: "run_slicing_strategy lib q cpg script params =
              Inr {n. \<exists>x \<in> set items. x \<noteq> JNull \<and> py_int lib x = Inr n}"
    if "q cpg script params = Inr raw" "raw \<noteq> []"
       "rev (splitlines (strip raw)) = pre @ line # post"
       "\<forall>l \<in> set pre. skippable lib l" "bracketed (strip line)"
       "json_loads lib (strip line) = Inr (JList items)"
       "\<forall>x \<in> set items. x = JNull \<or> (\<exists>n. py_int lib x = Inr n)"
  proof -
    from int_entries_ok[OF that(7)] obtain ns where
      "int_entries lib items = Inr ns"
      "set ns = {n. \<exists>x \<in> set items. x \<noteq> JNull \<and> py_int lib x = Inr n}" by blast
    then show ?thesis
      using parse_at_first_bracketed[OF that(2,3,4,5)] that(1,6)
      by (simp add: run_slicing_strategy_def)
  qed
  have c5: "run_slicing_strategy lib q cpg script params = Inr {} \<and>
            (\<exists>e'. parse_joern_list_output lib raw = Inl e')"
    if "q cpg script params = Inr raw" "raw \<noteq> []"
       "rev (splitlines (strip raw)) = pre @ line # post"
       "\<forall>l \<in> set pre. skippable lib l" "bracketed (strip line)"
       "json_loads lib (strip line) = Inr (JList items)"
       "\<forall>s e'. int_of_str lib s = Inl e' \<longrightarrow> is_exception e'"
       "\<exists>x \<in> set items. x \<noteq> JNull \<and> (\<exists>e'. py_int lib x = Inl e')"
  proof -
    from int_entries_fail[OF that(8)] obtain e' x where
      e: "int_entries lib items = Inl e'" "py_int lib x = Inl e'" by blast
    then have "is_exception e'" using py_int_exception[OF that(7)] by blast
    then show ?thesis
      using parse_at_first_bracketed[OF that(2,3,4,5)] that(1,6) e(1)
      by (simp add: run_slicing_strategy_def)
  qed
  have c6: "run_slicing_strategy lib q cpg script params = Inr {}"
    if "q cpg script params = Inr raw" "raw \<noteq> []"
       "rev (splitlines (strip raw)) = pre @ line # post"
       "\<forall>l \<in> set pre. skippable lib l" "bracketed (strip line)"
       "json_loads lib (strip line) = Inl e" "e \<noteq> JSONDecodeError" "is_exception e"
    using parse_at_first_bracketed[OF that(2,3,4,5)] that(1,6,7,8)
    by (simp add: run_slicing_strategy_def)
  have c7: "\<forall>e'. run_slicing_strategy lib q cpg script params = Inl e' \<longrightarrow> \<not> is_exception e'"
    using run_slicing_only_interrupt by blast
  show ?thesis
    using c1 c2 c3 c4 c5 c6 c7 by blast
qed

theorem slicer_line_set_witness:
  "run_slicing_strategy demo_lib (\<lambda>c s p. Inr []) ''cpg.bin'' ''ddg.sc'' params0 = Inr {} \<and>
   run_slicing_strategy demo_lib (\<lambda>c s p. Inr raw_noise) ''cpg.bin'' ''ddg.sc'' params0 = Inr {} \<and>
   run_slicing_strategy demo_lib (\<lambda>c s p. Inl RuntimeError) ''cpg.bin'' ''ddg.sc'' params0 = Inr {} \<and>
   run_slicing_strategy demo_lib (\<lambda>c s p. Inr raw_ok) ''cpg.bin'' ''ddg.sc'' params0 = Inr {3, 5} \<and>
   run_slicing_strategy demo_lib (\<lambda>c s p. Inr raw_mixed) ''cpg.bin'' ''ddg.sc'' params0 = Inr {} \<and>
   run_slicing_strategy (demo_lib\<lparr>json_loads := (\<lambda>s. Inl RuntimeError)\<rparr>)
     (\<lambda>c s p. Inr raw_mixed) ''cpg.bin'' ''ddg.sc'' params0 = Inr {}"
proof -
  have ne: "raw_ok \<noteq> []" "raw_mixed \<noteq> []" by (simp_all add: raw_ok_def raw_mixed_def)
  have exc: "is_exception RuntimeError" by (simp add: is_exception_def)
  have br: "bracketed (strip ''[3, null, 5]'')" "bracketed (strip raw_mixed)"
    by (simp_all add: raw_mixed_def json_eval str_eval)
  have ex: "\<forall>s e. int_of_str demo_lib s = Inl e \<longrightarrow> is_exception e"
    using demo_int_exception by blast
  have s: "{n. \<exists>x \<in> set [JInt 3, JNull, JInt 5]. x \<noteq> JNull \<and> py_int demo_lib x = Inr n} = {3, 5}"
    by auto
  have f: "\<exists>x \<in> set [JInt 1, JStr ''x'', JInt 3]. x \<noteq> JNull \<and> (\<exists>e. py_int demo_lib x = Inl e)"
    using int_of_x by (simp add: demo_lib_def)
  have c1: "run_slicing_strategy demo_lib (\<lambda>c s p. Inr []) ''cpg.bin'' ''ddg.sc'' params0 = Inr {}"
    using slicer_line_set[of "\<lambda>c s p. Inr []" "''cpg.bin''" "''ddg.sc''" params0 demo_lib]
    by simp
  have c2: "run_slicing_strategy demo_lib (\<lambda>c s p. Inr raw_noise) ''cpg.bin'' ''ddg.sc'' params0 = Inr {}"
    using slicer_line_set[of "\<lambda>c s p. Inr raw_noise" "''cpg.bin''" "''ddg.sc''" params0 demo_lib raw_noise]
      raw_noise_lines oops_line_skippable noise_line_skippable
    by simp
  have c3: "run_slicing_strategy demo_lib (\<lambda>c s p. Inl RuntimeError) ''cpg.bin'' ''ddg.sc'' params0 = Inr {}"
    using slicer_line_set[of "\<lambda>c s p. Inl RuntimeError" "''cpg.bin''" "''ddg.sc''" params0 demo_lib
        _ RuntimeError] exc
    by simp
  have c4: "run_slicing_strategy demo_lib (\<lambda>c s p. Inr raw_ok) ''cpg.bin'' ''ddg.sc'' params0 = Inr {3, 5}"
    using slicer_line_set[of "\<lambda>c s p. Inr raw_ok" "''cpg.bin''" "''ddg.sc''" params0 demo_lib raw_ok
        _ "[''[oops]'']" "''[3, null, 5]''" "[''noise'']" "[JInt 3, JNull, JInt 5]"]
      ne(1) raw_ok_lines oops_line_skippable br(1) list_line_decoded s
    by simp
  have c5: "run_slicing_strategy demo_lib (\<lambda>c s p. Inr raw_mixed) ''cpg.bin'' ''ddg.sc'' params0 = Inr {}"
    using slicer_line_set[of "\<lambda>c s p. Inr raw_mixed" "''cpg.bin''" "''ddg.sc''" params0 demo_lib raw_mixed
        _ "[]" raw_mixed "[]" "[JInt 1, JStr ''x'', JInt 3]"]
      ne(2) raw_mixed_lines br(2) mixed_line_decoded ex f
    by simp
  let ?lib = "demo_lib\<lparr>json_loads := (\<lambda>s. Inl RuntimeError)\<rparr>"
  have c6: "run_slicing_strategy ?lib (\<lambda>c s p. Inr raw_mixed) ''cpg.bin'' ''ddg.sc'' params0 = Inr {}"
    using slicer_line_set[of "\<lambda>c s p. Inr raw_mixed" "''cpg.bin''" "''ddg.sc''" params0 ?lib raw_mixed
        RuntimeError "[]" raw_mixed "[]"]
      ne(2) raw_mixed_lines br(2) exc
    by simp
  show ?thesis using c1 c2 c3 c4 c5 c6 by simp
qed

theorem non_integer_entry_counterexample:
  "run_slicing_strategy demo_lib (\<lambda>c s p. Inr raw_mixed) ''cpg.bin'' ''ddg.sc'' params0 = Inr {} \<and>
   run_slicing_strategy demo_lib (\<lambda>c s p. Inr raw_mixed) ''cpg.bin'' ''ddg.sc'' params0 \<noteq> Inr {1, 3} \<and>
   parse_joern_list_output demo_lib raw_mixed = Inl ValueError"
  by (simp add: run_slicing_strategy_def parse_joern_list_output_def raw_mixed_def is_exception_def
      json_eval str_eval)

lemma sorted_in_file:
  "finite S \<Longrightarrow>
   set (filter (\<lambda>n. 1 \<le> n \<and> n \<le> int (length lines)) (sorted_list_of_set S)) =
     {n \<in> S. 1 \<le> n \<and> n \<le> int (length lines)}"
  by auto

lemma run_ddg0: "run_slicing_strategy demo_lib joern0 ''cpg.bin'' ''ddg.sc''
     \<lparr>filename = ''A.java'', lineNumber = Some 2, methodName = Some ''f''\<rparr> = Inr {1}"
  by (simp add: run_slicing_strategy_def joern0_def parse_joern_list_output_def json_eval str_eval)

lemma run_ddg1: "run_slicing_strategy demo_lib joern1 ''cpg.bin'' ''ddg.sc'' p = Inr {}"
  by (simp add: run_slicing_strategy_def joern1_def parse_joern_list_output_def json_eval str_eval)

lemma run_cdg1: "run_slicing_strategy demo_lib joern1 ''cpg.bin'' ''cdg.sc'' p = Inr {}"
  by (simp add: run_slicing_strategy_def joern1_def parse_joern_list_output_def json_eval str_eval)

lemma ranges_text_decoded:
  "json_decode ranges_text = Inr (JList [JObj [(''start'', JInt 1), (''end'', JInt 5)]])"
  by (simp add: ranges_text_def json_eval)

lemma ranges_line: "rev (splitlines ranges_text) = [ranges_text]" "strip ranges_text = ranges_text"
  "bracketed ranges_text" "ranges_text \<noteq> []"
  by (simp_all add: ranges_text_def strip_def bracketed_def startswith_def endswith_def str_eval)

lemma ranges_text_parsed: "parse_ranges demo_lib ranges_text = Inr [rng 1 5]"
  using ranges_text_decoded
  by (simp add: parse_ranges_def ranges_line get_either_def rng_def demo_lib_def)

lemma mixed1: "mixed_slice_lines demo_lib joern1 slicer0 ''cpg.bin'' art1 = Inr {3}"
  by (simp add: mixed_slice_lines_def art1_def slicer0_def run_ddg1 run_cdg1)

lemma lines1: "splitlines (source_code art1) = [''a'', ''b'', ''c'', ''d'', ''e'']"
  by (simp add: art1_def str_eval)

lemma stitch1: "stitch_code (source_code art1) {3} [rng 1 5] =
     Inr (''a'' @ [LF] @ hidden_placeholder @ [LF] @ ''c'' @ [LF] @ hidden_placeholder @ [LF] @ ''e'')"
  unfolding stitch_code_def lines1
  by (simp add: stitch_lines_def getitem_def setitem_def norm_index_def should_keep_def
      py_range_def upto.simps enumerate_eq_zip rng_def indent_of_def lstrip_def isspace_def
      hidden_placeholder_def)

lemma build1: "build_mixed_context demo_lib joern1 slicer0 ''ast.sc'' ''cpg.bin'' art1 =
     Inr (''a'' @ [LF] @ hidden_placeholder @ [LF] @ ''c'' @ [LF] @ hidden_placeholder @ [LF] @ ''e'')"
  unfolding build_mixed_context_def mixed1
  using ranges_text_parsed stitch1
  by (simp add: joern1_def)

lemma run_cdg0: "run_slicing_strategy demo_lib joern0 ''cpg.bin'' ''cdg.sc''
     \<lparr>filename = ''A.java'', lineNumber = Some 2, methodName = Some ''f''\<rparr> = Inr {3}"
  by (simp add: run_slicing_strategy_def joern0_def parse_joern_list_output_def json_eval str_eval)

lemma blocks0:
  "construct_code_block (splitlines (source_code art0)) {1} = ''a''"
  "construct_code_block (splitlines (source_code art0)) {3} = ''c''"
  by (simp_all add: construct_code_block_def art0_def str_eval)

text \<open>
  Claim C2, as amended.  The must-keep set that \<open>build_mixed_context\<close> hands to the
  stitcher contains the buggy line whatever the two dependency queries answer; the text it
  returns is the source with the lines hidden that lie strictly inside a range parsed from
  the skeleton query and outside that set, so the buggy line, when the file has it, is
  among the lines of the returned text.  The two code blocks of \<open>generate_slices\<close> are
  \<open>_construct_code_block\<close> of the two parsed query results as they are: the buggy line is
  not added to them.  An empty result gives the block
  "(No dependencies found or slicing failed)", and a non-empty one the lines of the file
  whose numbers are in the result, in ascending order.
\<close>

theorem mixed_context_keeps_buggy_line:
  "(mixed_slice_lines lib q sl cpg art = Inr keep \<longrightarrow> buggy_line_no art \<in> keep) \<and>
   (cpg \<noteq> [] \<and> build_mixed_context lib q sl sk cpg art = Inr out \<longrightarrow>
      (\<exists>keep raw ranges.
         mixed_slice_lines lib q sl cpg art = Inr keep \<and>
         buggy_line_no art \<in> keep \<and>
         q cpg sk \<lparr>filename = file_path art, lineNumber = None, methodName = None\<rparr> = Inr raw \<and>
         parse_ranges lib raw = Inr ranges \<and>
         \<not> line_hidden ranges keep (buggy_line_no art) \<and>
         out = str_join [LF]
                 (render_runs
                    (map (\<lambda>(k, l). (line_hidden ranges keep (int k + 1), l))
                       (enumerate 0 (splitlines (source_code art))))) \<and>
         (1 \<le> buggy_line_no art \<and> buggy_line_no art \<le> int (length (splitlines (source_code art)))
            \<longrightarrow> splitlines (source_code art) ! nat (buggy_line_no art - 1)
                  \<in> set (render_runs
                           (map (\<lambda>(k, l). (line_hidden ranges keep (int k + 1), l))
                              (enumerate 0 (splitlines (source_code art)))))))) \<and>
   (cpg \<noteq> [] \<and> method_name art \<noteq> [] \<and>
    run_slicing_strategy lib q cpg (ddg_script_path sl)
      \<lparr>filename = file_path art, lineNumber = Some (buggy_line_no art),
       methodName = Some (method_name art)\<rparr> = Inr ddg_lines \<and>
    run_slicing_strategy lib q cpg (cdg_script_path sl)
      \<lparr>filename = file_path art, lineNumber = Some (buggy_line_no art),
       methodName = Some (method_name art)\<rparr> = Inr cdg_lines \<longrightarrow>
      generate_slices lib q sl cpg art =
        Inr (construct_code_block (splitlines (source_code art)) ddg_lines,
             construct_code_block (splitlines (source_code art)) cdg_lines)) \<and>
   construct_code_block lines {} = no_dependencies \<and>
   (finite S \<and> S \<noteq> {} \<longrightarrow>
      construct_code_block lines S =
        str_join [LF]
          (map (\<lambda>n. lines ! nat (n - 1))
             (filter (\<lambda>n. 1 \<le> n \<and> n \<le> int (length lines)) (sorted_list_of_set S))) \<and>
      set (filter (\<lambda>n. 1 \<le> n \<and> n \<le> int (length lines)) (sorted_list_of_set S)) =
        {n \<in> S. 1 \<le> n \<and> n \<le> int (length lines)})"
proof -
  have a: "buggy_line_no art \<in> k" if "mixed_slice_lines lib q sl cpg art = Inr k" for k
    using that by (auto simp: mixed_slice_lines_def Let_def split: sum.splits)
  have b: "\<exists>keep raw ranges.
         mixed_slice_lines lib q sl cpg art = Inr keep \<and>
         buggy_line_no art \<in> keep \<and>
         q cpg sk \<lparr>filename = file_path art, lineNumber = None, methodName = None\<rparr> = Inr raw \<and>
         parse_ranges lib raw = Inr ranges \<and>
         \<not> line_hidden ranges keep (buggy_line_no art) \<and>
         out = str_join [LF]
                 (render_runs
                    (map (\<lambda>(k, l). (line_hidden ranges keep (int k + 1), l))
                       (enumerate 0 (splitlines (source_code art))))) \<and>
         (1 \<le> buggy_line_no art \<and> buggy_line_no art \<le> int (length (splitlines (source_code art)))
            \<longrightarrow> splitlines (source_code art) ! nat (buggy_line_no art - 1)
                  \<in> set (render_runs
                           (map (\<lambda>(k, l). (line_hidden ranges keep (int k + 1), l))
                              (enumerate 0 (splitlines (source_code art))))))"
    if "cpg \<noteq> []" "build_mixed_context lib q sl sk cpg art = Inr out"
  proof -
    let ?ls = "splitlines (source_code art)"
    let ?b = "buggy_line_no art"
    from that obtain k where k: "mixed_slice_lines lib q sl cpg art = Inr k"
      by (auto simp: build_mixed_context_def split: sum.splits)
    from that k obtain raw where
      raw: "q cpg sk \<lparr>filename = file_path art, lineNumber = None, methodName = None\<rparr> = Inr raw"
      by (auto simp: build_mixed_context_def split: sum.splits)
    from that k raw obtain rs where rs: "parse_ranges lib raw = Inr rs"
      by (auto simp: build_mixed_context_def split: sum.splits)
    have st: "stitch_code (source_code art) k rs = Inr out"
      using that k raw rs by (simp add: build_mixed_context_def)
    let ?fl = "map (\<lambda>(i, l). (line_hidden rs k (int i + 1), l)) (enumerate 0 ?ls)"
    have out: "out = str_join [LF] (render_runs ?fl)"
      using st by (simp add: stitch_code_def stitch_lines_render)
    have nh: "\<not> line_hidden rs k ?b" using a[OF k] by (simp add: line_hidden_def)
    have vis: "?ls ! nat (?b - 1) \<in> set (render_runs ?fl)"
      if "1 \<le> ?b \<and> ?b \<le> int (length ?ls)"
    proof -
      have i: "nat (?b - 1) < length ?ls" "int (nat (?b - 1)) + 1 = ?b" using that by auto
      have "(nat (?b - 1), ?ls ! nat (?b - 1)) \<in> set (enumerate 0 ?ls)"
        using i(1) by (simp add: in_set_enumerate_eq)
      then have "(line_hidden rs k (int (nat (?b - 1)) + 1), ?ls ! nat (?b - 1)) \<in> set ?fl"
        by (force simp: image_iff)
      then have "(False, ?ls ! nat (?b - 1)) \<in> set ?fl"
        using nh unfolding i(2) by simp
      then show ?thesis by (rule render_runs_shows_visible)
    qed
    show ?thesis using k a[OF k] raw rs nh out vis by blast
  qed
  have c: "generate_slices lib q sl cpg art =
        Inr (construct_code_block (splitlines (source_code art)) ddg_lines,
             construct_code_block (splitlines (source_code art)) cdg_lines)"
    if "cpg \<noteq> []" "method_name art \<noteq> []"
       "run_slicing_strategy lib q cpg (ddg_script_path sl)
          \<lparr>filename = file_path art, lineNumber = Some (buggy_line_no art),
           methodName = Some (method_name art)\<rparr> = Inr ddg_lines"
       "run_slicing_strategy lib q cpg (cdg_script_path sl)
          \<lparr>filename = file_path art, lineNumber = Some (buggy_line_no art),
           methodName = Some (method_name art)\<rparr> = Inr cdg_lines"
    using that by (simp add: generate_slices_def slice_line_sets_def)
  have d: "construct_code_block lines {} = no_dependencies"
    by (simp add: construct_code_block_def)
  have e: "construct_code_block lines S =
        str_join [LF]
          (map (\<lambda>n. lines ! nat (n - 1))
             (filter (\<lambda>n. 1 \<le> n \<and> n \<le> int (length lines)) (sorted_list_of_set S)))"
    if "S \<noteq> {}"
  proof -
    have "(\<lambda>n. 0 \<le> n - 1 \<and> n - 1 \<le> int (length lines) - 1) = (\<lambda>n::int. 1 \<le> n \<and> n \<le> int (length lines))"
      by auto
    then show ?thesis using that by (simp add: construct_code_block_def)
  qed
  show ?thesis using a b c d e sorted_in_file[of S lines] by blast
qed

theorem mixed_context_keeps_buggy_line_witness:
  "mixed_slice_lines demo_lib joern1 slicer0 ''cpg.bin'' art1 = Inr {3} \<and>
   buggy_line_no art1 \<in> {3} \<and>
   parse_ranges demo_lib ranges_text = Inr [rng 1 5] \<and>
   line_hidden [rng 1 5] {3} 2 \<and>
   \<not> line_hidden [rng 1 5] {3} (buggy_line_no art1) \<and>
   build_mixed_context demo_lib joern1 slicer0 ''ast.sc'' ''cpg.bin'' art1 =
     Inr (''a'' @ [LF] @ hidden_placeholder @ [LF] @ ''c'' @ [LF] @ hidden_placeholder @ [LF] @ ''e'') \<and>
   generate_slices demo_lib joern0 slicer0 ''cpg.bin'' art0 = Inr (''a'', ''c'') \<and>
   generate_slices demo_lib joern1 slicer0 ''cpg.bin'' art1 = Inr (no_dependencies, no_dependencies)"
proof -
  let ?out = "''a'' @ [LF] @ hidden_placeholder @ [LF] @ ''c'' @ [LF] @ hidden_placeholder @ [LF] @ ''e''"
  have cpg: "''cpg.bin'' \<noteq> []" by simp
  have A: "buggy_line_no art1 \<in> {3}"
    by (rule mixed_context_keeps_buggy_line[of demo_lib joern1 slicer0 "''cpg.bin''" art1 "{3}",
          THEN conjunct1, THEN mp, OF mixed1])
  note ex = mixed_context_keeps_buggy_line[of demo_lib joern1 slicer0 "''cpg.bin''" art1 "{3}"
      "''ast.sc''" ?out, THEN conjunct2, THEN conjunct1, THEN mp, OF conjI[OF cpg build1]]
  from ex obtain keep raw ranges where
    k: "mixed_slice_lines demo_lib joern1 slicer0 ''cpg.bin'' art1 = Inr keep"
       "joern1 ''cpg.bin'' ''ast.sc''
          \<lparr>filename = file_path art1, lineNumber = None, methodName = None\<rparr> = Inr raw"
       "parse_ranges demo_lib raw = Inr ranges"
       "\<not> line_hidden ranges keep (buggy_line_no art1)"
    by (elim exE conjE)
  have k1: "keep = {3}" using k(1) unfolding mixed1 by simp
  have k2: "raw = ranges_text" using k(2) by (simp add: joern1_def)
  have k3: "ranges = [rng 1 5]" using k(3) unfolding k2 ranges_text_parsed by simp
  have B: "\<not> line_hidden [rng 1 5] {3} (buggy_line_no art1)" using k(4) unfolding k1 k3 .
  have H: "line_hidden [rng 1 5] {3} 2"
    by (simp add: line_hidden_def in_open_range_def rng_def)
  have m0: "method_name art0 \<noteq> []" "method_name art1 \<noteq> []" by (simp_all add: art0_def art1_def)
  have r0: "run_slicing_strategy demo_lib joern0 ''cpg.bin'' (ddg_script_path slicer0)
              \<lparr>filename = file_path art0, lineNumber = Some (buggy_line_no art0),
               methodName = Some (method_name art0)\<rparr> = Inr {1}"
           "run_slicing_strategy demo_lib joern0 ''cpg.bin'' (cdg_script_path slicer0)
              \<lparr>filename = file_path art0, lineNumber = Some (buggy_line_no art0),
               methodName = Some (method_name art0)\<rparr> = Inr {3}"
    using run_ddg0 run_cdg0 by (simp_all add: art0_def slicer0_def)
  have r1: "run_slicing_strategy demo_lib joern1 ''cpg.bin'' (ddg_script_path slicer0)
              \<lparr>filename = file_path art1, lineNumber = Some (buggy_line_no art1),
               methodName = Some (method_name art1)\<rparr> = Inr {}"
           "run_slicing_strategy demo_lib joern1 ''cpg.bin'' (cdg_script_path slicer0)
              \<lparr>filename = file_path art1, lineNumber = Some (buggy_line_no art1),
               methodName = Some (method_name art1)\<rparr> = Inr {}"
    using run_ddg1 run_cdg1 by (simp_all add: slicer0_def)
  have C: "generate_slices demo_lib joern0 slicer0 ''cpg.bin'' art0 = Inr (''a'', ''c'')"
    using mixed_context_keeps_buggy_line[of demo_lib joern0 slicer0 "''cpg.bin''" art0 "{}"
        "[]" "[]" "{1}" "{3}", THEN conjunct2, THEN conjunct2, THEN conjunct1, THEN mp,
        OF conjI[OF cpg conjI[OF m0(1) conjI[OF r0]]]]
    unfolding blocks0 .
  have e: "construct_code_block (splitlines (source_code art1)) {} = no_dependencies"
    by (rule mixed_context_keeps_buggy_line[of demo_lib joern1 slicer0 "''cpg.bin''" art1 "{}"
          "[]" "[]" "{}" "{}" "splitlines (source_code art1)", THEN conjunct2, THEN conjunct2,
          THEN conjunct2, THEN conjunct1])
  have D: "generate_slices demo_lib joern1 slicer0 ''cpg.bin'' art1 = Inr (no_dependencies, no_dependencies)"
    using mixed_context_keeps_buggy_line[of demo_lib joern1 slicer0 "''cpg.bin''" art1 "{}"
        "[]" "[]" "{}" "{}", THEN conjunct2, THEN conjunct2, THEN conjunct1, THEN mp,
        OF conjI[OF cpg conjI[OF m0(2) conjI[OF r1]]]]
    unfolding e .
  show ?thesis
    by (intro conjI) (rule mixed1 A ranges_text_parsed H B build1 C D)+
qed

theorem generate_slices_omits_buggy_line_counterexample:
  "slice_line_sets demo_lib joern0 slicer0 ''cpg.bin'' art0 = Inr ({1}, {3}) \<and>
   buggy_line_no art0 \<notin> {1} \<union> {3} \<and>
   generate_slices demo_lib joern0 slicer0 ''cpg.bin'' art0 = Inr (''a'', ''c'') \<and>
   mixed_slice_lines demo_lib joern0 slicer0 ''cpg.bin'' art0 = Inr {1, 2, 3}"
  by (simp add: generate_slices_def slice_line_sets_def mixed_slice_lines_def art0_def slicer0_def
      run_slicing_strategy_def joern0_def parse_joern_list_output_def construct_code_block_def
      json_eval str_eval insert_commute)



section \<open>Properties of the repair rounds\<close>











lemmas fs_eval = backup_file_def restore_file_def write_patch_def bak_def
lemmas workflow_eval = run_repair_def repair_round_def apply_patch_def after_tests_def
  py_range_def upto.simps collab0_def art0_def

lemma analyse0: "analyse collab0 art0 =
   Inr \<lparr>data_dependency_slice = ''a'', control_dependency_slice = ''c'',
        peripheral_context = source_code art0\<rparr>"
  by (simp add: analyse_def collab0_def generate_slices_def slice_line_sets_def generate_context_def
      art0_def slicer0_def run_slicing_strategy_def joern0_def parse_joern_list_output_def
      parse_ranges_def construct_code_block_def create_skeleton_def json_eval str_eval)


lemma no_code_block_feedback:
  assumes "get_round_name h round_num = Inr name"
    and "construct_prompt c session round_num (last_test_result st) = Inr prompt"
    and "generate_completion c round_num prompt = Inr raw_response"
    and "extract_block h raw_response = None"
  shows "repair_round h c art session round_num st =
           (Continue, st\<lparr>composed := composed st @ [(round_num, last_test_result st)],
                         last_test_result := Some no_code_block_result\<rparr>)"
  using assms by (simp add: repair_round_def)

text \<open>An exception of the test runner after the patch was written leaves the round with the
  patched content in the file: no restore follows.\<close>

lemma raise_after_write_leaves_patch:
  assumes "write_patch (workspace st) (file_path art) code_block = (Inr u, fs)"
    and "run_tests c art fs = Inl e"
  shows "apply_patch h c art round_num raw_response code_block st = (Raise e, st\<lparr>workspace := fs\<rparr>)"
    and "files fs (file_path art) = Some code_block"
  using assms
  by (auto simp: apply_patch_def Let_def write_patch_def split: prod.splits sum.splits if_splits)







text \<open>
  Claim C7 at a concrete completion.  The \<open>_extract_code_block\<close> of the source answers
  \<open>None\<close> for a completion that holds a fenced code block, so that the round takes the
  branch "no code block" and the next round composes its prompt with the failing result made
  up there; no patch is applied in any round.
\<close>

theorem code_block_never_extracted:
  "extract_code_block fenced_reply = None \<and>
   feedback (run_repair (source_helpers\<lparr>get_round_name := (\<lambda>r. Inr ''round'')\<rparr>)
               collab0 2 ''ws'' art0 fs_fresh) =
     [(1, None), (2, Some no_code_block_result)] \<and>
   returned (run_repair (source_helpers\<lparr>get_round_name := (\<lambda>r. Inr ''round'')\<rparr>)
               collab0 2 ''ws'' art0 fs_fresh) = Inr False"
  using analyse0
  by (simp add: workflow_eval fs_eval fs_fresh_def source_helpers_def extract_code_block_def)

end
